theory Spec2Isabelle
  imports Main
begin

section \<open>Strings\<close>

text \<open>
  Strings are lists of 8-bit characters, read as the code points U+0000 to U+00FF.
  The text of an XML element is a \<open>string option\<close>: \<open>None\<close> is Python's \<open>None\<close>, the
  text of an empty element. \<open>str_of\<close> is what \<open>'{}'.format(v)\<close> prints for such a value.
\<close>

type_synonym pystr = "string option"

definition str_of :: "pystr \<Rightarrow> string" where
  "str_of v = (case v of None \<Rightarrow> ''None'' | Some s \<Rightarrow> s)"

section \<open>\<open>str.lower\<close>, \<open>str.find\<close>, \<open>in\<close>, \<open>str.startswith\<close>, \<open>str.rstrip\<close>\<close>

definition lower_char :: "char \<Rightarrow> char" where
  "lower_char c =
     (let n = (of_char c :: nat)
      in if (65 \<le> n \<and> n \<le> 90) \<or> (192 \<le> n \<and> n \<le> 222 \<and> n \<noteq> 215)
         then char_of (n + 32) else c)"

definition lower :: "string \<Rightarrow> string" where
  "lower s = map lower_char s"

fun startswith :: "string \<Rightarrow> string \<Rightarrow> bool" where
  "startswith s [] = True"
| "startswith [] (p # ps) = False"
| "startswith (c # cs) (p # ps) = (c = p \<and> startswith cs ps)"

text \<open>\<open>find_from s sub i\<close> scans \<open>s\<close> from the left; \<open>i\<close> is the index of the head of \<open>s\<close>
  in the original string. The result is the lowest index where \<open>sub\<close> occurs, or \<open>-1\<close>.\<close>

fun find_from :: "string \<Rightarrow> string \<Rightarrow> int \<Rightarrow> int" where
  "find_from [] sub i = (if sub = [] then i else - 1)"
| "find_from (c # cs) sub i =
     (if startswith (c # cs) sub then i else find_from cs sub (i + 1))"

definition find_str :: "string \<Rightarrow> string \<Rightarrow> int" where
  "find_str s sub = find_from s sub 0"

definition contains :: "string \<Rightarrow> string \<Rightarrow> bool" where
  "contains sub s = (find_str s sub \<noteq> - 1)"

definition rstrip :: "string \<Rightarrow> char \<Rightarrow> string" where
  "rstrip s c = rev (dropWhile (\<lambda>x. x = c) (rev s))"

section \<open>The cache table and the statements sent to it\<close>

text \<open>
  The cache database file. \<open>Unreachable e\<close>: \<open>sqlite3.connect\<close> raises
  \<open>OperationalError(e)\<close>. \<open>Faulty e\<close>: every statement raises \<open>OperationalError(e)\<close>
  (a locked or damaged file). \<open>Absent\<close>: the file has no table \<open>skey_cache\<close>.
  \<open>Present rows\<close>: the table and its rows, in rowid order.

  The column \<open>expired\<close> holds the text of a float, a POSIX timestamp that \<open>get_skey\<close>
  reads back with \<open>float()\<close>. Timestamps are counted here in microseconds, the
  resolution of \<open>datetime\<close>; writing one as text and reading it back is the identity.
\<close>

record row =
  dns_name :: string
  ip :: string
  proto :: string
  expired :: int
  skey :: string

datatype db = Unreachable string | Faulty string | Absent | Present "row list"

text \<open>
  The statements the script sends, with their \<open>WHERE\<close> clauses. A \<open>SELECT\<close> is
  modelled as returning the whole matching row; the caller takes the columns it named.
  The values that the script pastes between double quotes are compared as string
  literals.
\<close>

datatype cond =
    ByIp string string
  | ByName string string string

datatype query =
    Select cond
  | Insert row
  | Update string int cond
  | Delete
  | CreateTable

section \<open>Exceptions\<close>

text \<open>
  Exceptions are values. \<open>SystemExit\<close> carries its message; \<open>QueryError e query\<close> is
  \<open>SystemExit('ERROR: {}. Query: {}'.format(e, query))\<close>, with the statement kept as a
  value. The others are the exceptions the script lets escape uncaught.
\<close>

datatype error =
    SystemExit string
  | QueryError string query
  | AttributeError
  | KeyError pystr
  | ParseError
  | OSError string
  | IntegrityError
  | RequestException string

section \<open>Dictionaries\<close>

text \<open>
  A Python \<open>dict\<close> keeps its keys in insertion order, and \<open>json.dumps\<close> prints them in
  that order: a dictionary is an association list with distinct keys. \<open>setitem\<close> is
  \<open>d[k] = v\<close>: an existing key keeps its place and gets the new value, a new key goes
  to the end. \<open>getitem\<close> is \<open>d[k]\<close>, which raises \<open>KeyError\<close> on a missing key.
\<close>

type_synonym ('k, 'v) dict = "('k \<times> 'v) list"

fun setitem :: "('k, 'v) dict \<Rightarrow> 'k \<Rightarrow> 'v \<Rightarrow> ('k, 'v) dict" where
  "setitem [] k v = [(k, v)]"
| "setitem ((k', v') # d) k v =
     (if k' = k then (k, v) # d else (k', v') # setitem d k v)"

definition keys :: "('k, 'v) dict \<Rightarrow> 'k list" where
  "keys d = map fst d"

definition getitem :: "(string, 'v) dict \<Rightarrow> string \<Rightarrow> error + 'v" where
  "getitem d k = (case map_of d k of None \<Rightarrow> Inl (KeyError (Some k)) | Some v \<Rightarrow> Inr v)"

text \<open>Sequencing of steps that may raise: the first exception ends the computation.\<close>

definition bindE :: "error + 'a \<Rightarrow> ('a \<Rightarrow> error + 'b) \<Rightarrow> error + 'b" where
  "bindE m f = (case m of Inl e \<Rightarrow> Inl e | Inr a \<Rightarrow> f a)"

section \<open>XML trees and the ElementPath queries the script uses\<close>

text \<open>
  An \<open>xml.etree.ElementTree.Element\<close>: tag, attributes, text and children. Every path
  in the script is a sequence of child steps \<open>TAG[@key='value']\<close> below \<open>.\<close>; a step
  selects, over the current elements in document order, their children with that tag,
  and keeps those whose attribute has that value. \<open>findall\<close> returns all the matches in
  that order and \<open>find\<close> (here \<open>find_elem\<close>) the first one or \<open>None\<close>.
\<close>

datatype xml =
  Element (tag: string) (attrib: "(string \<times> string) list") (elem_text: pystr) (children: "xml list")

datatype step = Child string string string

fun select :: "step \<Rightarrow> xml list \<Rightarrow> xml list" where
  "select (Child t k v) result =
     filter (\<lambda>e. map_of (attrib e) k = Some v)
       (concat (map (\<lambda>elem. filter (\<lambda>e. tag e = t) (children elem)) result))"

definition findall :: "xml \<Rightarrow> step list \<Rightarrow> xml list" where
  "findall elem path = foldl (\<lambda>result s. select s result) [elem] path"

definition find_elem :: "xml \<Rightarrow> step list \<Rightarrow> xml option" where
  "find_elem elem path = (case findall elem path of [] \<Rightarrow> None | e # _ \<Rightarrow> Some e)"

text \<open>\<open>elem.find(path).text\<close>: an \<open>AttributeError\<close> when nothing is found.\<close>

definition find_text :: "xml \<Rightarrow> step list \<Rightarrow> error + pystr" where
  "find_text elem path =
     (case find_elem elem path of None \<Rightarrow> Inl AttributeError | Some e \<Rightarrow> Inr (elem_text e))"

abbreviation OBJECT :: "string \<Rightarrow> step" where
  "OBJECT n \<equiv> Child ''OBJECT'' ''name'' n"

abbreviation PROPERTY :: "string \<Rightarrow> step" where
  "PROPERTY n \<equiv> Child ''PROPERTY'' ''name'' n"

section \<open>Configuration, environment and state of one invocation\<close>

text \<open>
  The globals the script sets from its arguments. \<open>SAVE_XML\<close> is \<open>None\<close> or the path
  \<open>SAVE_XML[0]\<close>.
\<close>

record config =
  API_VERSION :: int
  USE_SSL :: bool
  VERIFY_SSL :: bool
  MSA_USERNAME :: string
  SAVE_XML :: "string option"
  CACHE_DB :: string

text \<open>A GET request as \<open>requests.get\<close> receives it, and what may come back.\<close>

datatype verify = Default | CAFile string | NoVerify

record request =
  full_url :: string
  headers :: "(string \<times> pystr) list"
  verify :: verify

datatype outcome =
    SSLError
  | ConnectTimeout
  | ConnectionError string
  | OtherFailure string
  | Response string

text \<open>
  What \<open>with open(path, 'w') as xml_file: xml_file.write(text)\<close> may do. \<open>Written\<close>:
  the file holds the text. \<open>PermissionDenied\<close>: \<open>open\<close> raises \<open>PermissionError\<close>.
  \<open>OpenFailed e\<close>: \<open>open\<close> raises another \<open>OSError\<close> with the message \<open>e\<close>
  (\<open>FileNotFoundError\<close> for a missing directory, \<open>IsADirectoryError\<close>).
  \<open>Unencodable e\<close>: the file is opened, and thereby emptied, and \<open>write\<close> raises
  \<open>UnicodeEncodeError\<close>, a \<open>ValueError\<close>, with the message \<open>e\<close>.
\<close>

datatype saving = Written | PermissionDenied | OpenFailed string | Unencodable string

text \<open>
  What \<open>ElementTree.fromstring\<close> may do: return the tree, raise \<open>ParseError\<close> (a
  \<open>SyntaxError\<close>) on a body that is not well-formed, or raise \<open>ValueError\<close> with a
  message.
\<close>

datatype parsing = Parsed xml | NotWellFormed | Invalid string

text \<open>
  What does not belong to the script: the storage behind the network (its answer may
  depend on the requests made so far), the time a request takes, the file system that
  \<open>open(path, 'w')\<close> meets, and \<open>ElementTree.fromstring\<close>.
\<close>

record env =
  respond :: "request list \<Rightarrow> request \<Rightarrow> outcome"
  elapsed :: nat
  save :: "string \<Rightarrow> saving"
  fromstring :: "string \<Rightarrow> parsing"

record world =
  cache :: db
  clock :: int
  sent :: "request list"
  files :: "(string, string) dict"
  stdout :: "string list"

type_synonym 'a io = "world \<Rightarrow> (error + 'a) \<times> world"

definition bindS :: "'a io \<Rightarrow> ('a \<Rightarrow> 'b io) \<Rightarrow> 'b io" where
  "bindS m f = (\<lambda>w. case m w of (Inl e, w') \<Rightarrow> (Inl e, w') | (Inr a, w') \<Rightarrow> f a w')"

definition return :: "'a \<Rightarrow> 'a io" where
  "return a = (\<lambda>w. (Inr a, w))"

definition raise :: "error \<Rightarrow> 'a io" where
  "raise e = (\<lambda>w. (Inl e, w))"

section \<open>The session cache: \<open>sql_cmd\<close>\<close>

fun matches :: "cond \<Rightarrow> row \<Rightarrow> bool" where
  "matches (ByIp i p) r = (ip r = i \<and> proto r = p)"
| "matches (ByName n i p) r = (dns_name r = n \<and> ip r = i \<and> proto r = p)"

definition same_key :: "row \<Rightarrow> row \<Rightarrow> bool" where
  "same_key r r' = (dns_name r = dns_name r' \<and> ip r = ip r' \<and> proto r = proto r')"

datatype sqlite_error = OperationalError string | IntegrityErr

text \<open>\<open>cursor.execute(query)\<close>: the rows selected and the database afterwards.\<close>

fun execute :: "query \<Rightarrow> db \<Rightarrow> sqlite_error + (row list \<times> db)" where
  "execute q (Unreachable e) = Inl (OperationalError e)"
| "execute q (Faulty e) = Inl (OperationalError e)"
| "execute CreateTable Absent = Inr ([], Present [])"
| "execute q Absent = Inl (OperationalError ''no such table: skey_cache'')"
| "execute (Select c) (Present rows) = Inr (filter (matches c) rows, Present rows)"
| "execute (Insert r) (Present rows) =
     (if list_ex (same_key r) rows then Inl IntegrityErr
      else Inr ([], Present (rows @ [r])))"
| "execute (Update k t c) (Present rows) =
     Inr ([], Present (map (\<lambda>r. if matches c r then r\<lparr>expired := t, skey := k\<rparr> else r) rows))"
| "execute Delete (Present rows) = Inr ([], Present [])"
| "execute CreateTable (Present rows) = Inr ([], Present rows)"

text \<open>
  \<open>sql_cmd(query)\<close> with \<open>fetch_all=False\<close>, as \<open>get_skey\<close> calls it: the first row
  selected, or \<open>None\<close>. A failing connection is printed and the function falls off its
  end, returning \<open>None\<close> as well. An \<open>OperationalError\<close> of the statement ends the
  process: with the message \<open>Cache is empty\<close> when the error text starts with
  \<open>no such table\<close>, and otherwise with \<open>'ERROR: {}. Query: {}'.format(e, query)\<close>, the
  error \<open>QueryError e query\<close>.
\<close>

definition sql_cmd :: "config \<Rightarrow> query \<Rightarrow> row option io" where
  "sql_cmd cfg query w =
     (case cache w of
        Unreachable e \<Rightarrow>
          (Inr None, w\<lparr>stdout := stdout w @ [''CACHE ERROR: (db: '' @ CACHE_DB cfg @ '') '' @ e]\<rparr>)
      | _ \<Rightarrow>
          (case execute query (cache w) of
             Inl (OperationalError e) \<Rightarrow>
               if startswith e ''no such table'' then (Inl (SystemExit ''Cache is empty''), w)
               else (Inl (QueryError e query), w)
           | Inl IntegrityErr \<Rightarrow> (Inl IntegrityError, w)
           | Inr (data, d) \<Rightarrow>
               (Inr (case data of [] \<Rightarrow> None | r # _ \<Rightarrow> Some r), w\<lparr>cache := d\<rparr>)))"

section \<open>The API client: \<open>query_xmlapi\<close>\<close>

definition ca_file :: string where
  "ca_file = ''/etc/pki/tls/certs/ca-bundle.crt''"

definition status_path :: "string \<Rightarrow> step list" where
  "status_path prop = [OBJECT ''status'', PROPERTY prop]"

text \<open>
  The second half of \<open>query_xmlapi\<close>, reading the response, inside
  \<open>try: ... except (ValueError, AttributeError) as e:\<close>
  \<open>raise SystemExit("ERROR: Cannot parse XML. {}".format(e))\<close>.

  The body is saved when \<open>SAVE_XML\<close> is set and the URL does not contain \<open>login\<close>.
  The handler of \<open>PermissionError\<close> evaluates \<open>args.savexml\<close>, an attribute the
  argument parser never defines (it defines \<open>save_xml\<close>): that \<open>AttributeError\<close> is
  caught by the enclosing handler. Any other \<open>OSError\<close> of \<open>open\<close> is caught by nothing
  and escapes; a \<open>UnicodeEncodeError\<close> of \<open>write\<close> is a \<open>ValueError\<close> and is caught.

  A \<open>ValueError\<close> of \<open>fromstring\<close> is caught; its \<open>ParseError\<close> is a \<open>SyntaxError\<close>,
  which nothing catches. \<open>.text\<close> on a node that \<open>find\<close> did not find is an
  \<open>AttributeError\<close>, caught.
\<close>

definition cannot_parse :: "string \<Rightarrow> error" where
  "cannot_parse e = SystemExit (''ERROR: Cannot parse XML. '' @ e)"

definition no_attribute :: "string \<Rightarrow> string \<Rightarrow> string" where
  "no_attribute ty attr =
     [CHR 0x27] @ ty @ [CHR 0x27] @ '' object has no attribute '' @ [CHR 0x27] @ attr @ [CHR 0x27]"

definition write_xml_file :: "config \<Rightarrow> env \<Rightarrow> string \<Rightarrow> string \<Rightarrow> unit io" where
  "write_xml_file cfg ev url body w =
     (case SAVE_XML cfg of
        None \<Rightarrow> (Inr (), w)
      | Some path \<Rightarrow>
          if contains ''login'' url then (Inr (), w)
          else (case save ev path of
                  Written \<Rightarrow> (Inr (), w\<lparr>files := setitem (files w) path body\<rparr>)
                | PermissionDenied \<Rightarrow>
                    (Inl (cannot_parse (no_attribute ''Namespace'' ''savexml'')), w)
                | OpenFailed e \<Rightarrow> (Inl (OSError e), w)
                | Unencodable e \<Rightarrow>
                    (Inl (cannot_parse e), w\<lparr>files := setitem (files w) path []\<rparr>)))"

definition read_response ::
  "config \<Rightarrow> env \<Rightarrow> string \<Rightarrow> string \<Rightarrow> (pystr \<times> pystr \<times> xml) io" where
  "read_response cfg ev url body w =
     (case write_xml_file cfg ev url body w of
        (Inl e, w1) \<Rightarrow> (Inl e, w1)
      | (Inr _, w1) \<Rightarrow>
          (case fromstring ev body of
             NotWellFormed \<Rightarrow> (Inl ParseError, w1)
           | Invalid e \<Rightarrow> (Inl (cannot_parse e), w1)
           | Parsed response_xml \<Rightarrow>
               (case find_text response_xml (status_path ''return-code'') of
                  Inl _ \<Rightarrow> (Inl (cannot_parse (no_attribute ''NoneType'' ''text'')), w1)
                | Inr return_code \<Rightarrow>
                    (case find_text response_xml (status_path ''response'') of
                       Inl _ \<Rightarrow> (Inl (cannot_parse (no_attribute ''NoneType'' ''text'')), w1)
                     | Inr return_response \<Rightarrow>
                         (Inr (return_code, return_response, response_xml), w1)))))"

text \<open>
  The request itself. It is logged in \<open>sent\<close> and takes \<open>elapsed\<close> microseconds whatever
  its outcome. \<open>SSLError\<close>, \<open>ConnectTimeout\<close> and \<open>ConnectionError\<close> end the process
  with a message; any other exception of \<open>requests\<close> (a read timeout) escapes.
\<close>

definition request_of :: "config \<Rightarrow> string \<Rightarrow> pystr \<Rightarrow> request" where
  "request_of cfg url sessionkey =
     \<lparr>full_url = (if USE_SSL cfg then ''https://'' @ url else ''http://'' @ url),
      headers =
        (if API_VERSION cfg = 2 then [(''sessionKey'', sessionkey)]
         else [(''Cookie'', Some (''wbiusername='' @ MSA_USERNAME cfg @
                                 ''; wbisessionkey='' @ str_of sessionkey))]),
      verify =
        (if USE_SSL cfg then (if VERIFY_SSL cfg then CAFile ca_file else NoVerify)
         else Default)\<rparr>"

definition requested :: "config \<Rightarrow> env \<Rightarrow> string \<Rightarrow> pystr \<Rightarrow> world \<Rightarrow> world" where
  "requested cfg ev url sessionkey w =
     w\<lparr>clock := clock w + int (elapsed ev), sent := sent w @ [request_of cfg url sessionkey]\<rparr>"

definition query_xmlapi ::
  "config \<Rightarrow> env \<Rightarrow> string \<Rightarrow> pystr \<Rightarrow> (pystr \<times> pystr \<times> xml) io" where
  "query_xmlapi cfg ev url sessionkey w =
     (let req = request_of cfg url sessionkey;
          w1 = requested cfg ev url sessionkey w
      in case respond ev (sent w) req of
           SSLError \<Rightarrow> (Inl (SystemExit ''ERROR: Cannot verify storage SSL Certificate.''), w1)
         | ConnectTimeout \<Rightarrow> (Inl (SystemExit ''ERROR: Timeout occurred!''), w1)
         | ConnectionError e \<Rightarrow>
             (Inl (SystemExit (''ERROR: Cannot connect to storage '' @ e @ ''.'')), w1)
         | OtherFailure e \<Rightarrow> (Inl (RequestException e), w1)
         | Response body \<Rightarrow> read_response cfg ev url body w1)"

section \<open>The session manager: \<open>get_skey\<close>\<close>

text \<open>
  \<open>msa\<close> is the pair (IP address, DNS name). With \<open>use_cache\<close> the function reads the
  clock, looks the endpoint up and returns the cached key while it has not expired;
  otherwise it calls itself with \<open>use_cache=False\<close>, which logs in. The result is a
  Python value: a string, or \<open>None\<close> when the function falls off its end.
\<close>

definition thirty_minutes :: int where
  "thirty_minutes = 30 * 60 * 1000000"

definition msa_conn :: "config \<Rightarrow> string \<times> string \<Rightarrow> string" where
  "msa_conn cfg msa = (if VERIFY_SSL cfg then snd msa else fst msa)"

definition login_url :: "config \<Rightarrow> string \<times> string \<Rightarrow> string \<Rightarrow> string" where
  "login_url cfg msa hashed_login = msa_conn cfg msa @ ''/api/login/'' @ hashed_login"

text \<open>The body of \<open>if ret_code == '1'\<close> up to the \<open>return\<close>: insert the row of the
  endpoint, or update it when a row is there.\<close>

definition store_skey :: "config \<Rightarrow> string \<times> string \<Rightarrow> int \<Rightarrow> pystr \<Rightarrow> row option io" where
  "store_skey cfg msa t sessionkey =
     (if \<not> USE_SSL cfg then
        bindS (sql_cmd cfg (Select (ByIp (fst msa) ''http''))) (\<lambda>cache_data.
          if cache_data = None
          then sql_cmd cfg (Insert \<lparr>dns_name = snd msa, ip = fst msa, proto = ''http'',
                                    expired = t, skey = str_of sessionkey\<rparr>)
          else sql_cmd cfg (Update (str_of sessionkey) t (ByIp (fst msa) ''http'')))
      else
        bindS (sql_cmd cfg (Select (ByName (snd msa) (fst msa) ''https''))) (\<lambda>cache_data.
          if cache_data = None
          then sql_cmd cfg (Insert \<lparr>dns_name = snd msa, ip = fst msa, proto = ''https'',
                                    expired = t, skey = str_of sessionkey\<rparr>)
          else sql_cmd cfg (Update (str_of sessionkey) t (ByName (snd msa) (fst msa) ''https''))))"

function get_skey ::
  "config \<Rightarrow> env \<Rightarrow> string \<times> string \<Rightarrow> string \<Rightarrow> bool \<Rightarrow> pystr io" where
  "get_skey cfg ev msa hashed_login use_cache w =
     (if use_cache then
        (let cur_timestamp = clock w
         in case (if \<not> USE_SSL cfg then sql_cmd cfg (Select (ByIp (fst msa) ''http'')) w
                  else sql_cmd cfg (Select (ByName (snd msa) (fst msa) ''https'')) w) of
              (Inl e, w1) \<Rightarrow> (Inl e, w1)
            | (Inr None, w1) \<Rightarrow> get_skey cfg ev msa hashed_login False w1
            | (Inr (Some cache_data), w1) \<Rightarrow>
                if cur_timestamp < expired cache_data then (Inr (Some (skey cache_data)), w1)
                else get_skey cfg ev msa hashed_login False w1)
      else
        (case query_xmlapi cfg ev (login_url cfg msa hashed_login) None w of
           (Inl e, w1) \<Rightarrow> (Inl e, w1)
         | (Inr (ret_code, sessionkey, xml), w1) \<Rightarrow>
             if ret_code = Some ''1'' then
               (case store_skey cfg msa (clock w1 + thirty_minutes) sessionkey w1 of
                  (Inl e, w2) \<Rightarrow> (Inl e, w2)
                | (Inr _, w2) \<Rightarrow> (Inr sessionkey, w2))
             else if ret_code = Some ''2'' then (Inr ret_code, w1)
             else (Inr None, w1)))"
  by pat_completeness auto
termination
  by (relation "measure (\<lambda>(cfg, ev, msa, hashed_login, use_cache, w). if use_cache then 1 else 0)")
     auto

text \<open>
  The \<open>WHERE\<close> clause of all the statements of \<open>get_skey\<close> for one endpoint: the IP
  address for http, the DNS name and the IP address for https. The entry of the endpoint
  is the first row it selects.
\<close>

definition cache_key :: "config \<Rightarrow> string \<times> string \<Rightarrow> cond" where
  "cache_key cfg msa =
     (if \<not> USE_SSL cfg then ByIp (fst msa) ''http'' else ByName (snd msa) (fst msa) ''https'')"

section \<open>The component extractor\<close>

type_synonym metrics = "(string, pystr) dict"
type_synonym components = "(pystr, metrics) dict"

definition show_url :: "config \<Rightarrow> string \<times> string \<Rightarrow> string \<Rightarrow> string" where
  "show_url cfg msa component = msa_conn cfg msa @ ''/api/show/'' @ component"

definition error_message :: "pystr \<Rightarrow> pystr \<Rightarrow> string" where
  "error_message rc rd = ''ERROR: '' @ str_of rc @ '' : '' @ str_of rd"

subsection \<open>Discovery: \<open>make_lld\<close>\<close>

definition comp_names_map :: "(string, string) dict" where
  "comp_names_map =
     [(''disks'', ''drive''), (''vdisks'', ''virtual-disk''), (''pools'', ''pools''),
      (''disk-groups'', ''disk-group''), (''volumes'', ''volume''),
      (''controllers'', ''controllers''), (''enclosures'', ''enclosures''),
      (''power-supplies'', ''power-supplies''), (''fans'', ''fan-details''),
      (''ports'', ''ports'')]"

definition comp_props_map :: "(string, (string, string) dict) dict" where
  "comp_props_map =
     [(''vdisks'', [(''{#VDISK.ID}'', ''name''), (''{#VDISK.TYPE}'', ''storage-type'')]),
      (''fans'', [(''{#FAN.ID}'', ''durable-id''), (''{#FAN.LOCATION}'', ''location'')]),
      (''ports'', [(''{#PORT.ID}'', ''port''), (''{#PORT.TYPE}'', ''port-type''),
                   (''{#PORT.SPEED}'', ''actual-speed'')]),
      (''pools'', [(''{#POOL.ID}'', ''name''), (''{#POOL.SN}'', ''serial-number''),
                   (''{#POOL.TYPE}'', ''storage-type'')]),
      (''enclosures'', [(''{#ENCLOSURE.ID}'', ''enclosure-id''),
                        (''{#ENCLOSURE.SN}'', ''midplane-serial-number'')]),
      (''volumes'', [(''{#VOLUME.ID}'', ''volume-name''), (''{#VOLUME.SN}'', ''serial-number''),
                     (''{#VOLUME.TYPE}'', ''volume-type'')]),
      (''power-supplies'', [(''{#POWERSUPPLY.ID}'', ''durable-id''),
                            (''{#POWERSUPPLY.LOCATION}'', ''location''),
                            (''{#POWERSUPPLY.NAME}'', ''name'')]),
      (''disks'', [(''{#DISK.ID}'', ''location''), (''{#DISK.SN}'', ''serial-number''),
                   (''{#DISK.MODEL}'', ''model''), (''{#DISK.ARCH}'', ''architecture'')]),
      (''disk-groups'', [(''{#DG.ID}'', ''name''), (''{#DG.SN}'', ''serial-number''),
                         (''{#DG.TYPE}'', ''storage-type''), (''{#DG.TIER}'', ''storage-tier'')]),
      (''controllers'', [(''{#CONTROLLER.ID}'', ''controller-id''),
                         (''{#CONTROLLER.SN}'', ''serial-number''),
                         (''{#CONTROLLER.IP}'', ''ip-address''),
                         (''{#CONTROLLER.WWN}'', ''node-wwn'')])]"

text \<open>\<open>try: v = part.find(path).text\<close> \<open>except AttributeError: v = "UNKNOWN"\<close>.\<close>

definition text_or_unknown :: "xml \<Rightarrow> step list \<Rightarrow> pystr" where
  "text_or_unknown part path =
     (case find_text part path of Inl _ \<Rightarrow> Some ''UNKNOWN'' | Inr xml_prop_value \<Rightarrow> xml_prop_value)"

text \<open>The body of the loop over the objects found: one discovery entry.\<close>

definition lld_entry :: "string \<Rightarrow> xml \<Rightarrow> error + metrics" where
  "lld_entry component part =
     bindE (getitem comp_props_map component) (\<lambda>props.
       let lld_dict = foldl (\<lambda>d (macro, prop). setitem d macro (text_or_unknown part [PROPERTY prop]))
                        [] props
       in Inr (if component = ''ports''
               then setitem lld_dict ''{#PORT.SFP}''
                      (text_or_unknown part [OBJECT ''port-details'', PROPERTY ''sfp-present''])
               else lld_dict))"

fun lld_loop :: "string \<Rightarrow> xml list \<Rightarrow> metrics list \<Rightarrow> error + metrics list" where
  "lld_loop component [] all_components = Inr all_components"
| "lld_loop component (part # parts) all_components =
     (case lld_entry component part of
        Inl e \<Rightarrow> Inl e
      | Inr lld_dict \<Rightarrow> lld_loop component parts (all_components @ [lld_dict]))"

text \<open>
  \<open>make_lld\<close> returns \<open>json.dumps({"data": all_components})\<close>; the model returns
  \<open>all_components\<close>, the list of entries that is printed.
\<close>

definition make_lld ::
  "config \<Rightarrow> env \<Rightarrow> string \<times> string \<Rightarrow> string \<Rightarrow> pystr \<Rightarrow> metrics list io" where
  "make_lld cfg ev msa component sessionkey =
     bindS (query_xmlapi cfg ev (show_url cfg msa component) sessionkey)
       (\<lambda>(resp_return_code, resp_description, xml).
          if resp_return_code \<noteq> Some ''0''
          then raise (SystemExit (error_message resp_return_code resp_description))
          else (case getitem comp_names_map component of
                  Inl e \<Rightarrow> raise e
                | Inr name \<Rightarrow>
                    (case lld_loop component (findall xml [OBJECT name]) [] of
                       Inl e \<Rightarrow> raise e
                     | Inr all_components \<Rightarrow> return all_components)))"

subsection \<open>Metrics: \<open>get_full_json\<close>\<close>

text \<open>
  \<open>read_props PROP table\<close> is a dictionary literal whose values are
  \<open>PROP.find("./PROPERTY[@name='...']").text\<close>: a missing property raises
  \<open>AttributeError\<close>, whichever it is. \<open>add_ext\<close> is the loop over the optional
  properties, which stores the text of those that were found.
\<close>

definition prop_text :: "xml \<Rightarrow> string \<Rightarrow> error + pystr" where
  "prop_text Prop name = find_text Prop [PROPERTY name]"

fun read_props :: "xml \<Rightarrow> (string \<times> string) list \<Rightarrow> error + metrics" where
  "read_props Prop [] = Inr []"
| "read_props Prop ((key, name) # table) =
     (case prop_text Prop name of
        Inl e \<Rightarrow> Inl e
      | Inr v \<Rightarrow> (case read_props Prop table of Inl e \<Rightarrow> Inl e | Inr d \<Rightarrow> Inr ((key, v) # d)))"

definition add_ext :: "metrics \<Rightarrow> (string \<times> xml option) list \<Rightarrow> metrics" where
  "add_ext full_data ext =
     foldl (\<lambda>d (prop, value). case value of None \<Rightarrow> d | Some e \<Rightarrow> setitem d prop (elem_text e))
       full_data ext"

definition disks_part :: "xml \<Rightarrow> components \<Rightarrow> error + components" where
  "disks_part Prop all_components =
     bindE (prop_text Prop ''location'') (\<lambda>disk_location.
     bindE (read_props Prop [(''h'', ''health-numeric'')]) (\<lambda>disk_full_data.
     Inr (setitem all_components disk_location
            (add_ext disk_full_data
               [(''t'', find_elem Prop [PROPERTY ''temperature-numeric'']),
                (''ts'', find_elem Prop [PROPERTY ''temperature-status-numeric'']),
                (''cj'', find_elem Prop [PROPERTY ''job-running-numeric'']),
                (''poh'', find_elem Prop [PROPERTY ''power-on-hours''])]))))"

definition vdisks_part :: "xml \<Rightarrow> components \<Rightarrow> error + components" where
  "vdisks_part Prop all_components =
     bindE (prop_text Prop ''name'') (\<lambda>vdisk_name.
     bindE (read_props Prop
              [(''h'', ''health-numeric''), (''s'', ''status-numeric''),
               (''ow'', ''owner-numeric''), (''owp'', ''preferred-owner-numeric'')])
       (\<lambda>vdisk_full_data.
     Inr (setitem all_components vdisk_name vdisk_full_data)))"

definition pools_part :: "xml \<Rightarrow> components \<Rightarrow> error + components" where
  "pools_part Prop all_components =
     bindE (prop_text Prop ''serial-number'') (\<lambda>pool_sn.
     bindE (read_props Prop
              [(''h'', ''health-numeric''), (''hc'', ''health''), (''hr'', ''health-reason''),
               (''hrc'', ''health-recommendation''), (''sn'', ''serial-number''),
               (''ow'', ''owner-numeric''), (''owp'', ''preferred-owner-numeric''),
               (''pst'', ''storage-type''), (''bs'', ''blocksize''), (''ts'', ''total-size''),
               (''tsn'', ''total-size-numeric''), (''ta'', ''total-avail''),
               (''tan'', ''total-avail-numeric''), (''dgs'', ''disk-groups''),
               (''vms'', ''volumes''), (''ps'', ''page-size''), (''psn'', ''page-size-numeric''),
               (''lts'', ''low-threshold''), (''mts'', ''middle-threshold''),
               (''hts'', ''high-threshold'')])
       (\<lambda>pool_full_data.
     Inr (setitem all_components pool_sn pool_full_data)))"

text \<open>A disk group whose job is not running has no text in \<open>current-job-completion\<close>;
  the script puts \<open>'0'\<close> there, and strips the percent signs at the end otherwise.\<close>

definition disk_groups_part :: "xml \<Rightarrow> components \<Rightarrow> error + components" where
  "disk_groups_part Prop all_components =
     bindE (prop_text Prop ''serial-number'') (\<lambda>dg_sn.
     bindE (read_props Prop
              [(''h'', ''health-numeric''), (''s'', ''status-numeric''),
               (''ow'', ''owner-numeric''), (''owp'', ''preferred-owner-numeric''),
               (''cj'', ''current-job-numeric'')])
       (\<lambda>dg_head.
     bindE (prop_text Prop ''current-job-completion'') (\<lambda>dg_curr_job_pct.
     bindE (read_props Prop
              [(''bs'', ''blocksize''), (''sz'', ''size''), (''szn'', ''size-numeric''),
               (''fr'', ''freespace''), (''frn'', ''freespace-numeric''),
               (''rs'', ''raw-size''), (''rsn'', ''raw-size-numeric'')])
       (\<lambda>dg_tail.
     Inr (setitem all_components dg_sn
            (dg_head @
             [(''cjp'', Some (rstrip (case dg_curr_job_pct of None \<Rightarrow> ''0'' | Some s \<Rightarrow> s)
                                (CHR ''%'')))] @
             dg_tail))))))"

definition volumes_part :: "xml \<Rightarrow> components \<Rightarrow> error + components" where
  "volumes_part Prop all_components =
     bindE (prop_text Prop ''serial-number'') (\<lambda>vol_sn.
     bindE (read_props Prop
              [(''h'', ''health-numeric''), (''ow'', ''owner-numeric''),
               (''owp'', ''preferred-owner-numeric''), (''szn'', ''size-numeric''),
               (''sz'', ''size''), (''tszn'', ''total-size-numeric''),
               (''tsz'', ''total-size''), (''asn'', ''allocated-size-numeric''),
               (''as'', ''allocated-size'')])
       (\<lambda>vol_full_data.
     Inr (setitem all_components vol_sn vol_full_data)))"

text \<open>
  A controller needs a second request, for its statistics, with the same session key;
  its failure ends the extraction.
\<close>

definition controllers_part ::
  "config \<Rightarrow> env \<Rightarrow> string \<times> string \<Rightarrow> pystr \<Rightarrow> xml \<Rightarrow> components \<Rightarrow> components io" where
  "controllers_part cfg ev msa sessionkey Prop all_components =
     (case bindE (prop_text Prop ''controller-id'') (\<lambda>ctrl_id.
           bindE (prop_text Prop ''sc-fw'') (\<lambda>ctrl_sc_fw.
           bindE (prop_text Prop ''health-numeric'') (\<lambda>ctrl_health_num.
           bindE (prop_text Prop ''status-numeric'') (\<lambda>ctrl_status_num.
           bindE (prop_text Prop ''redundancy-status-numeric'') (\<lambda>ctrl_rd_status_num.
           Inr (ctrl_id, ctrl_sc_fw, ctrl_health_num, ctrl_status_num, ctrl_rd_status_num)))))) of
        Inl e \<Rightarrow> raise e
      | Inr (ctrl_id, ctrl_sc_fw, ctrl_health_num, ctrl_status_num, ctrl_rd_status_num) \<Rightarrow>
          bindS (query_xmlapi cfg ev
                   (msa_conn cfg msa @ ''/api/show/'' @ ''controller-statistics'' @ ''/'' @ str_of ctrl_id)
                   sessionkey)
            (\<lambda>(stats_ret_code, stats_descr, stats_xml).
               if stats_ret_code \<noteq> Some ''0''
               then raise (SystemExit (error_message stats_ret_code stats_descr))
               else
                 (case bindE (find_text stats_xml
                                [OBJECT ''controller-statistics'', PROPERTY ''cpu-load''])
                         (\<lambda>ctrl_cpu_load.
                       bindE (find_text stats_xml
                                [OBJECT ''controller-statistics'', PROPERTY ''iops''])
                         (\<lambda>ctrl_iops.
                       Inr (setitem all_components ctrl_id
                              (add_ext
                                 [(''h'', ctrl_health_num), (''s'', ctrl_status_num),
                                  (''rs'', ctrl_rd_status_num), (''cpu'', ctrl_cpu_load),
                                  (''io'', ctrl_iops), (''fw'', ctrl_sc_fw)]
                                 [(''fh'', find_elem Prop
                                             [Child ''OBJECT'' ''basetype'' ''compact-flash'',
                                              PROPERTY ''health-numeric'']),
                                  (''fs'', find_elem Prop
                                             [Child ''OBJECT'' ''basetype'' ''compact-flash'',
                                              PROPERTY ''status-numeric''])]))))
                  of Inl e \<Rightarrow> raise e | Inr r \<Rightarrow> return r)))"

definition enclosures_part :: "xml \<Rightarrow> components \<Rightarrow> error + components" where
  "enclosures_part Prop all_components =
     bindE (prop_text Prop ''enclosure-id'') (\<lambda>encl_id.
     bindE (read_props Prop [(''h'', ''health-numeric''), (''s'', ''status-numeric'')])
       (\<lambda>encl_full_data.
     Inr (setitem all_components encl_id encl_full_data)))"

text \<open>
  Power supplies: \<open>ps_name.lower().find('voltage regulator') == -1\<close> guards the whole
  entry, so a voltage regulator leaves \<open>all_components\<close> as it was. A name without
  text is \<open>None\<close>, which has no \<open>lower\<close>.
\<close>

definition power_supplies_part :: "xml \<Rightarrow> components \<Rightarrow> error + components" where
  "power_supplies_part PS all_components =
     bindE (prop_text PS ''durable-id'') (\<lambda>ps_id.
     bindE (prop_text PS ''name'') (\<lambda>ps_name.
       case ps_name of
         None \<Rightarrow> Inl AttributeError
       | Some name \<Rightarrow>
           if find_str (lower name) ''voltage regulator'' = - 1
           then bindE (read_props PS
                         [(''h'', ''health-numeric''), (''s'', ''status-numeric''),
                          (''12v'', ''dc12v''), (''5v'', ''dc5v''), (''33v'', ''dc33v''),
                          (''12i'', ''dc12i''), (''5i'', ''dc5i'')])
                  (\<lambda>ps_full_data.
                Inr (setitem all_components ps_id
                       (add_ext ps_full_data [(''t'', find_elem PS [PROPERTY ''dctemp''])])))
           else Inr all_components))"

definition fans_part :: "xml \<Rightarrow> components \<Rightarrow> error + components" where
  "fans_part FAN all_components =
     bindE (prop_text FAN ''durable-id'') (\<lambda>fan_id.
     bindE (read_props FAN
              [(''h'', ''health-numeric''), (''s'', ''status-numeric''), (''sp'', ''speed'')])
       (\<lambda>fan_full_data.
     Inr (setitem all_components fan_id fan_full_data)))"

text \<open>
  Ports. The optional \<open>status-numeric\<close> is stored under \<open>ps\<close>, the key that already
  holds the text of \<open>status\<close>. The SFP status comes from the object \<open>port-details\<close>:
  the numeric property when it is there (its textual companion is then read without a
  check), and otherwise the textual one looked up in \<open>sfp_status_map\<close>.
\<close>

definition sfp_status_map :: "(string, string) dict" where
  "sfp_status_map =
     [(''Not compatible'', ''0''), (''Incorrect protocol'', ''1''), (''Not present'', ''2''),
      (''OK'', ''3'')]"

definition sfp_status :: "xml \<Rightarrow> metrics \<Rightarrow> error + metrics" where
  "sfp_status FC port_full_data =
     (let sfp_status_char = find_elem FC [OBJECT ''port-details'', PROPERTY ''sfp-status''];
          sfp_status_num = find_elem FC [OBJECT ''port-details'', PROPERTY ''sfp-status-numeric'']
      in case sfp_status_num of
           Some num \<Rightarrow>
             (case sfp_status_char of
                None \<Rightarrow> Inl AttributeError
              | Some chr \<Rightarrow>
                  Inr (setitem (setitem port_full_data ''ss'' (elem_text num))
                         ''sfps'' (elem_text chr)))
         | None \<Rightarrow>
             (case sfp_status_char of
                None \<Rightarrow> Inr port_full_data
              | Some chr \<Rightarrow>
                  (case elem_text chr of
                     None \<Rightarrow> Inl (KeyError None)
                   | Some t \<Rightarrow>
                       bindE (getitem sfp_status_map t) (\<lambda>code.
                       Inr (setitem (setitem port_full_data ''ss'' (Some code))
                              ''sfps'' (elem_text chr))))))"

definition port_data :: "xml \<Rightarrow> error + metrics" where
  "port_data FC =
     bindE (read_props FC
              [(''h'', ''health-numeric''), (''pt'', ''port-type''), (''pas'', ''actual-speed''),
               (''ps'', ''status'')])
       (\<lambda>port_full_data.
     sfp_status FC (add_ext port_full_data [(''ps'', find_elem FC [PROPERTY ''status-numeric''])]))"

definition ports_part :: "xml \<Rightarrow> components \<Rightarrow> error + components" where
  "ports_part FC all_components =
     bindE (prop_text FC ''port'') (\<lambda>port_name.
     bindE (port_data FC) (\<lambda>port_full_data.
     Inr (setitem all_components port_name port_full_data)))"

text \<open>The \<open>for\<close> loop over the objects found, which the first exception leaves.\<close>

fun for_parts ::
  "(xml \<Rightarrow> components \<Rightarrow> components io) \<Rightarrow> xml list \<Rightarrow> components \<Rightarrow> components io" where
  "for_parts body [] all_components w = (Inr all_components, w)"
| "for_parts body (part # parts) all_components w =
     (case body part all_components w of
        (Inl e, w1) \<Rightarrow> (Inl e, w1)
      | (Inr all_components1, w1) \<Rightarrow> for_parts body parts all_components1 w1)"

definition pure :: "(xml \<Rightarrow> components \<Rightarrow> error + components) \<Rightarrow> xml \<Rightarrow> components \<Rightarrow> components io" where
  "pure f part all_components w = (f part all_components, w)"

subsection \<open>\<open>expand_dict\<close>\<close>

definition m :: "(string, string) dict" where
  "m = [(''h'', ''health''), (''s'', ''status''), (''ow'', ''owner''), (''owp'', ''owner-preferred''),
        (''t'', ''temperature''), (''ts'', ''temperature-status''), (''cj'', ''current-job''),
        (''poh'', ''power-on-hours''), (''rs'', ''redundancy-status''),
        (''fw'', ''firmware-version''), (''sp'', ''speed''), (''ps'', ''port-status''),
        (''ss'', ''sfp-status''), (''fh'', ''flash-health''), (''fs'', ''flash-status''),
        (''12v'', ''power-12v''), (''5v'', ''power-5v''), (''33v'', ''power-33v''),
        (''12i'', ''power-12i''), (''5i'', ''power-5i''), (''io'', ''iops''),
        (''cpu'', ''cpu-load''), (''cjp'', ''current-job-completion'')]"

text \<open>The inner loop, \<open>h_metrics[m[key]] = metrics[key]\<close> for each key of \<open>metrics\<close>, and
  the outer one, \<open>result_dict[compid] = h_metrics\<close>.\<close>

fun expand_metrics :: "metrics \<Rightarrow> metrics \<Rightarrow> error + metrics" where
  "expand_metrics [] h_metrics = Inr h_metrics"
| "expand_metrics ((key, v) # metrics) h_metrics =
     (case getitem m key of
        Inl e \<Rightarrow> Inl e
      | Inr name \<Rightarrow> expand_metrics metrics (setitem h_metrics name v))"

fun expand_items :: "components \<Rightarrow> components \<Rightarrow> error + components" where
  "expand_items [] result_dict = Inr result_dict"
| "expand_items ((compid, metrics) # init_dict) result_dict =
     (case expand_metrics metrics [] of
        Inl e \<Rightarrow> Inl e
      | Inr h_metrics \<Rightarrow> expand_items init_dict (setitem result_dict compid h_metrics))"

definition expand_dict :: "components \<Rightarrow> error + components" where
  "expand_dict init_dict = expand_items init_dict []"

subsection \<open>\<open>get_full_json\<close>\<close>

text \<open>
  \<open>get_full_json\<close> returns \<open>json.dumps(all_components)\<close>; the model returns
  \<open>all_components\<close>, the dictionary that is printed. A component name outside the ten
  branches leaves it empty.
\<close>

definition get_full_json ::
  "config \<Rightarrow> env \<Rightarrow> string \<times> string \<Rightarrow> string \<Rightarrow> pystr \<Rightarrow> bool \<Rightarrow> components io" where
  "get_full_json cfg ev msa component sessionkey human =
     bindS (query_xmlapi cfg ev (show_url cfg msa component) sessionkey)
       (\<lambda>(resp_return_code, resp_description, xml).
          if resp_return_code \<noteq> Some ''0''
          then raise (SystemExit (error_message resp_return_code resp_description))
          else
            bindS
              (if component = ''disks''
               then for_parts (pure disks_part) (findall xml [OBJECT ''drive'']) []
               else if component = ''vdisks''
               then for_parts (pure vdisks_part) (findall xml [OBJECT ''virtual-disk'']) []
               else if component = ''pools''
               then for_parts (pure pools_part) (findall xml [OBJECT ''pools'']) []
               else if component = ''disk-groups''
               then for_parts (pure disk_groups_part) (findall xml [OBJECT ''disk-group'']) []
               else if component = ''volumes''
               then for_parts (pure volumes_part) (findall xml [OBJECT ''volume'']) []
               else if component = ''controllers''
               then for_parts (controllers_part cfg ev msa sessionkey)
                      (findall xml [OBJECT ''controllers'']) []
               else if component = ''enclosures''
               then for_parts (pure enclosures_part) (findall xml [OBJECT ''enclosures'']) []
               else if component = ''power-supplies''
               then for_parts (pure power_supplies_part) (findall xml [OBJECT ''power-supplies'']) []
               else if component = ''fans''
               then for_parts (pure fans_part) (findall xml [OBJECT ''fan-details'']) []
               else if component = ''ports''
               then for_parts (pure ports_part) (findall xml [OBJECT ''ports'']) []
               else return [])
              (\<lambda>all_components.
                 if human
                 then (case expand_dict all_components of Inl e \<Rightarrow> raise e | Inr r \<Rightarrow> return r)
                 else return all_components))"

section \<open>Example responses\<close>

text \<open>
  The data of the closed examples below: a configuration for plain HTTP with API
  version 2, the endpoint \<open>(10.0.0.5, msa1)\<close>, a storage that answers every request
  with the same document after a quarter of a second, and the documents.
\<close>

definition http_cfg :: config where
  "http_cfg = \<lparr>API_VERSION = 2, USE_SSL = False, VERIFY_SSL = False, MSA_USERNAME = ''monitor'',
               SAVE_XML = None, CACHE_DB = ''/var/tmp/zbx-hpmsa/zbx-hpmsa.cache.db''\<rparr>"

definition msa1 :: "string \<times> string" where
  "msa1 = (''10.0.0.5'', ''msa1'')"

definition serving :: "xml \<Rightarrow> env" where
  "serving doc = \<lparr>respond = (\<lambda>history req. Response ''<RESPONSE/>''), elapsed = 250000,
                  save = (\<lambda>path. Written), fromstring = (\<lambda>body. Parsed doc)\<rparr>"

definition at_noon :: "db \<Rightarrow> world" where
  "at_noon d = \<lparr>cache = d, clock = 1700000000000000, sent = [], files = [], stdout = []\<rparr>"

definition property :: "string \<Rightarrow> string \<Rightarrow> xml" where
  "property n v = Element ''PROPERTY'' [(''name'', n)] (Some v) []"

definition object :: "string \<Rightarrow> xml list \<Rightarrow> xml" where
  "object n body = Element ''OBJECT'' [(''name'', n)] None body"

definition response :: "string \<Rightarrow> string \<Rightarrow> xml list \<Rightarrow> xml" where
  "response rc descr objects =
     Element ''RESPONSE'' [] None
       (objects @ [object ''status'' [property ''return-code'' rc, property ''response'' descr]])"

definition login_ok :: xml where
  "login_ok = response ''1'' ''SESSIONKEY1'' []"

definition login_denied :: xml where
  "login_denied = response ''2'' ''Authentication Unsuccessful'' []"

definition port_A1 :: "string \<Rightarrow> xml" where
  "port_A1 sfp =
     object ''ports''
       [property ''port'' ''A1'', property ''health-numeric'' ''0'', property ''port-type'' ''FC'',
        property ''actual-speed'' ''8Gb'', property ''status'' ''Up'',
        object ''port-details'' [property ''sfp-status'' sfp]]"

definition ports_doc :: "string \<Rightarrow> xml" where
  "ports_doc sfp = response ''0'' ''Command completed successfully.'' [port_A1 sfp]"

definition port_B2 :: xml where
  "port_B2 =
     object ''ports''
       [property ''port'' ''B2'', property ''health-numeric'' ''0'', property ''port-type'' ''FC'',
        property ''actual-speed'' ''4Gb'', property ''status'' ''Disconnected'',
        property ''status-numeric'' ''2'']"

definition two_ports_doc :: "string \<Rightarrow> xml" where
  "two_ports_doc sfp = response ''0'' ''Command completed successfully.'' [port_B2, port_A1 sfp]"

definition regulator :: xml where
  "regulator =
     object ''power-supplies''
       [property ''durable-id'' ''psu_1.3'', property ''location'' ''Enclosure 1'',
        property ''name'' ''Voltage Regulator 1'', property ''health-numeric'' ''0'',
        property ''status-numeric'' ''1'', property ''dc12v'' ''0'', property ''dc5v'' ''0'',
        property ''dc33v'' ''0'', property ''dc12i'' ''0'', property ''dc5i'' ''0'']"

definition psu_doc :: xml where
  "psu_doc = response ''0'' ''Command completed successfully.'' [regulator]"

definition psu_left :: xml where
  "psu_left =
     object ''power-supplies''
       [property ''durable-id'' ''psu_1.1'', property ''location'' ''Enclosure 1 - Left'',
        property ''name'' ''PSU 1, Left'', property ''health-numeric'' ''0'',
        property ''status-numeric'' ''1'', property ''dc12v'' ''1195'', property ''dc5v'' ''508'',
        property ''dc33v'' ''336'', property ''dc12i'' ''903'', property ''dc5i'' ''640'']"

definition psus_doc :: xml where
  "psus_doc = response ''0'' ''Command completed successfully.'' [regulator, psu_left]"

definition bare_disk :: xml where
  "bare_disk = object ''drive'' [property ''location'' ''1.1'']"

definition disks_doc :: xml where
  "disks_doc = response ''0'' ''Command completed successfully.'' [bare_disk]"

section \<open>Properties of the strings and dictionaries\<close>

lemma startswith_iff: "startswith s p \<longleftrightarrow> (\<exists>t. s = p @ t)"
  by (induction s p rule: startswith.induct) auto

lemma find_from_ge: "find_from s sub i \<noteq> - 1 \<Longrightarrow> 0 \<le> i \<Longrightarrow> i \<le> find_from s sub i"
  by (induction s sub i rule: find_from.induct) (auto split: if_splits)

lemma find_from_none_iff:
  "0 \<le> i \<Longrightarrow> find_from s sub i = - 1 \<longleftrightarrow> \<not> (\<exists>pre post. s = pre @ sub @ post)"
proof (induction s sub i rule: find_from.induct)
  case (1 sub i)
  then show ?case by auto
next
  case (2 c cs sub i)
  show ?case
  proof (cases "startswith (c # cs) sub")
    case True
    then obtain t where "c # cs = sub @ t" by (auto simp: startswith_iff)
    then have "c # cs = [] @ sub @ t" by simp
    then have "\<exists>pre post. c # cs = pre @ sub @ post" by blast
    with True 2 show ?thesis by auto
  next
    case False
    have "(\<exists>pre post. c # cs = pre @ sub @ post) \<longleftrightarrow> (\<exists>pre post. cs = pre @ sub @ post)"
    proof
      assume "\<exists>pre post. c # cs = pre @ sub @ post"
      then obtain pre post where e: "c # cs = pre @ sub @ post" by blast
      show "\<exists>pre post. cs = pre @ sub @ post"
      proof (cases pre)
        case Nil
        with e have "startswith (c # cs) sub" by (auto simp: startswith_iff)
        with False show ?thesis by simp
      next
        case (Cons a pre')
        with e have "cs = pre' @ sub @ post" by simp
        then show ?thesis by blast
      qed
    next
      assume "\<exists>pre post. cs = pre @ sub @ post"
      then obtain pre post where "cs = pre @ sub @ post" by blast
      then have "c # cs = (c # pre) @ sub @ post" by simp
      then show "\<exists>pre post. c # cs = pre @ sub @ post" by blast
    qed
    with False 2 show ?thesis by auto
  qed
qed

lemma find_str_none_iff: "find_str s sub = - 1 \<longleftrightarrow> \<not> (\<exists>pre post. s = pre @ sub @ post)"
  by (simp add: find_str_def find_from_none_iff)

lemma contains_iff: "contains sub s \<longleftrightarrow> (\<exists>pre post. s = pre @ sub @ post)"
  by (simp add: contains_def find_str_none_iff)

lemma set_setitem: "set (setitem d k v) \<subseteq> insert (k, v) (set d)"
  by (induction d) (auto split: if_splits)

lemma map_of_setitem: "map_of (setitem d k v) = (map_of d)(k \<mapsto> v)"
  by (induction d) (auto simp: fun_eq_iff)

lemma keys_setitem:
  "keys (setitem d k v) = (if k \<in> set (keys d) then keys d else keys d @ [k])"
  by (induction d) (force simp: keys_def)+

lemma length_setitem:
  "length (setitem d k v) = (if k \<in> set (keys d) then length d else Suc (length d))"
  by (induction d) (force simp: keys_def)+

section \<open>Unfolding the model on closed examples\<close>

lemmas example_defs = http_cfg_def msa1_def serving_def at_noon_def property_def object_def
  response_def login_ok_def login_denied_def port_A1_def ports_doc_def regulator_def psu_doc_def
  bare_disk_def disks_doc_def psu_left_def psus_doc_def port_B2_def two_ports_doc_def

lemmas xml_defs = findall_def find_elem_def find_text_def status_path_def prop_text_def
  text_or_unknown_def

lemmas io_defs = bindS_def bindE_def return_def raise_def pure_def

lemmas api_defs = query_xmlapi_def read_response_def write_xml_file_def cannot_parse_def
  no_attribute_def requested_def request_of_def login_url_def show_url_def
  msa_conn_def error_message_def str_of_def contains_def find_str_def

lemmas full_defs = get_full_json_def ports_part_def port_data_def sfp_status_def
  sfp_status_map_def add_ext_def getitem_def power_supplies_part_def

lemmas lld_defs = make_lld_def lld_entry_def comp_names_map_def comp_props_map_def getitem_def

section \<open>Loops over the objects of a response\<close>

lemma for_parts_pure_Cons:
  "for_parts (pure f) (part # parts) acc w =
     (case f part acc of Inl e \<Rightarrow> (Inl e, w) | Inr acc1 \<Rightarrow> for_parts (pure f) parts acc1 w)"
  by (cases "f part acc") (simp_all add: pure_def)

lemma for_parts_pure_Nil: "for_parts (pure f) [] acc w = (Inr acc, w)"
  by simp

lemmas for_parts_pure = for_parts_pure_Nil for_parts_pure_Cons

lemma for_parts_pure_world: "for_parts (pure f) parts acc w = (r, w') \<Longrightarrow> w' = w"
  by (induction parts arbitrary: acc) (auto simp: for_parts_pure simp del: for_parts.simps split: sum.splits)

lemma for_parts_pure_from:
  assumes step: "\<And>part acc acc'. f part acc = Inr acc' \<Longrightarrow> set acc' \<subseteq> set acc \<union> {e. Q part e}"
  shows "for_parts (pure f) parts acc w = (Inr comps, w')
         \<Longrightarrow> set comps \<subseteq> set acc \<union> {e. \<exists>part\<in>set parts. Q part e}"
proof (induction parts arbitrary: acc)
  case Nil
  then show ?case by simp
next
  case (Cons part parts)
  from Cons.prems obtain acc1 where a: "f part acc = Inr acc1"
    and r: "for_parts (pure f) parts acc1 w = (Inr comps, w')"
    by (auto simp: for_parts_pure simp del: for_parts.simps split: sum.splits)
  from Cons.IH[OF r] step[OF a] show ?case by auto
qed

lemma for_parts_pure_append:
  "for_parts (pure f) (xs @ ys) acc w =
     (case for_parts (pure f) xs acc w of
        (Inl e, w') \<Rightarrow> (Inl e, w')
      | (Inr acc1, w') \<Rightarrow> for_parts (pure f) ys acc1 w')"
  by (induction xs arbitrary: acc)
     (simp_all add: for_parts_pure del: for_parts.simps split: sum.splits)

section \<open>\<open>expand_dict\<close> on the results of \<open>get_full_json\<close>\<close>

text \<open>
  C7. The claim: \<open>expand_dict\<close> never fails on a key produced by \<open>get_full_json\<close>, and
  keeps the instance keys and the number of metrics. The table \<open>m\<close> has no entry for
  \<open>pt\<close>, \<open>pas\<close> and \<open>sfps\<close>, which the ports branch produces (nor for \<open>hc\<close>, \<open>bs\<close>, \<open>szn\<close>
  and others of the pools, disk-groups and volumes branches). For a response with one
  port, the call without \<open>human\<close> returns the metrics of the port, and the same call with
  \<open>human\<close> ends with \<open>KeyError('pt')\<close>.
\<close>

theorem expand_dict_ports_key_error:
  "fst (get_full_json http_cfg (serving (ports_doc ''OK'')) msa1 ''ports'' (Some ''SESSIONKEY1'')
          False (at_noon (Present [])))
     = Inr [(Some ''A1'', [(''h'', Some ''0''), (''pt'', Some ''FC''), (''pas'', Some ''8Gb''),
                          (''ps'', Some ''Up''), (''ss'', Some ''3''), (''sfps'', Some ''OK'')])]
   \<and> fst (get_full_json http_cfg (serving (ports_doc ''OK'')) msa1 ''ports'' (Some ''SESSIONKEY1'')
            True (at_noon (Present [])))
     = Inl (KeyError (Some ''pt''))
   \<and> expand_dict [(Some ''A1'', [(''h'', Some ''0''), (''pt'', Some ''FC'')])]
     = Inl (KeyError (Some ''pt''))"
  by (simp add: full_defs expand_dict_def m_def example_defs xml_defs io_defs api_defs)

section \<open>Ports in full mode\<close>

lemma port_data_Inr:
  assumes "port_data FC = Inr d"
  shows "\<exists>h pt pas st. prop_text FC ''health-numeric'' = Inr h \<and> prop_text FC ''port-type'' = Inr pt
           \<and> prop_text FC ''actual-speed'' = Inr pas \<and> prop_text FC ''status'' = Inr st
           \<and> sfp_status FC [(''h'', h), (''pt'', pt), (''pas'', pas),
                (''ps'', case find_elem FC [PROPERTY ''status-numeric''] of None \<Rightarrow> st | Some e \<Rightarrow> elem_text e)] = Inr d"
  using assms
  by (auto simp: port_data_def bindE_def add_ext_def split: sum.splits option.splits)

lemma port_data_main:
  assumes "prop_text FC ''health-numeric'' = Inr h" "prop_text FC ''port-type'' = Inr pt"
    "prop_text FC ''actual-speed'' = Inr pas" "prop_text FC ''status'' = Inr st"
  shows "port_data FC = sfp_status FC [(''h'', h), (''pt'', pt), (''pas'', pas),
                (''ps'', case find_elem FC [PROPERTY ''status-numeric''] of None \<Rightarrow> st | Some e \<Rightarrow> elem_text e)]"
  using assms
  by (auto simp: port_data_def bindE_def add_ext_def split: sum.splits option.splits)

lemma sfp_status_Inr:
  assumes "sfp_status FC [(''h'', h), (''pt'', pt), (''pas'', pas), (''ps'', ps)] = Inr d"
  shows "d = [(''h'', h), (''pt'', pt), (''pas'', pas), (''ps'', ps)]
       \<or> (\<exists>ss sfps. d = [(''h'', h), (''pt'', pt), (''pas'', pas), (''ps'', ps), (''ss'', ss), (''sfps'', sfps)])"
  using assms
  by (auto simp: sfp_status_def bindE_def Let_def split: sum.splits option.splits)

lemma get_full_json_ports:
  assumes "query_xmlapi cfg ev (show_url cfg msa ''ports'') sk w = (Inr (Some ''0'', rd, xml), w1)"
  shows "get_full_json cfg ev msa ''ports'' sk human w =
         bindS (for_parts (pure ports_part) (findall xml [OBJECT ''ports'']) [])
           (\<lambda>all_components.
              if human then (case expand_dict all_components of Inl e \<Rightarrow> raise e | Inr r \<Rightarrow> return r)
              else return all_components) w1"
  using assms by (simp add: get_full_json_def bindS_def)

lemma sfp_status_text:
  assumes "find_elem FC [OBJECT ''port-details'', PROPERTY ''sfp-status-numeric''] = None"
      and "find_elem FC [OBJECT ''port-details'', PROPERTY ''sfp-status''] = Some c"
  shows "sfp_status FC base =
           (case elem_text c of
              None \<Rightarrow> Inl (KeyError None)
            | Some t \<Rightarrow>
                (case map_of sfp_status_map t of
                   None \<Rightarrow> Inl (KeyError (Some t))
                 | Some code \<Rightarrow> Inr (setitem (setitem base ''ss'' (Some code)) ''sfps'' (Some t))))"
  using assms by (simp add: sfp_status_def getitem_def bindE_def split: option.splits)

lemma sfp_status_map_cases:
  "map_of sfp_status_map t =
     (if t = ''Not compatible'' then Some ''0'' else if t = ''Incorrect protocol'' then Some ''1''
      else if t = ''Not present'' then Some ''2'' else if t = ''OK'' then Some ''3'' else None)"
  by (simp add: sfp_status_map_def)

lemma port_data_found:
  assumes "\<forall>n\<in>{''health-numeric'', ''port-type'', ''actual-speed'', ''status''}.
             find_elem FC [PROPERTY n] \<noteq> None"
  shows "\<exists>h pt pas ps. port_data FC = sfp_status FC [(''h'', h), (''pt'', pt), (''pas'', pas), (''ps'', ps)]"
proof -
  from assms obtain a b c d where
    "find_elem FC [PROPERTY ''health-numeric''] = Some a" "find_elem FC [PROPERTY ''port-type''] = Some b"
    "find_elem FC [PROPERTY ''actual-speed''] = Some c" "find_elem FC [PROPERTY ''status''] = Some d"
    by auto
  then have "prop_text FC ''health-numeric'' = Inr (elem_text a)" "prop_text FC ''port-type'' = Inr (elem_text b)"
    "prop_text FC ''actual-speed'' = Inr (elem_text c)" "prop_text FC ''status'' = Inr (elem_text d)"
    by (simp_all add: prop_text_def find_text_def)
  from port_data_main[OF this] show ?thesis by blast
qed

text \<open>
  A port on which the body of the loop raises nothing: it has its name and its four main
  properties, and in its \<open>port-details\<close> either \<open>sfp-status-numeric\<close> together with
  \<open>sfp-status\<close>, or no \<open>sfp-status-numeric\<close> and no \<open>sfp-status\<close> outside the four
  texts of \<open>sfp_status_map\<close>.
\<close>

lemma ports_part_Inr:
  "prop_text P ''port'' = Inr n \<Longrightarrow> port_data P = Inr d
   \<Longrightarrow> ports_part P acc = Inr (setitem acc n d)"
  by (simp add: ports_part_def bindE_def)

lemma sfp_status_readable:
  assumes "case find_elem P [OBJECT ''port-details'', PROPERTY ''sfp-status-numeric''] of
             Some numeric \<Rightarrow> find_elem P [OBJECT ''port-details'', PROPERTY ''sfp-status''] \<noteq> None
           | None \<Rightarrow>
               (\<forall>c. find_elem P [OBJECT ''port-details'', PROPERTY ''sfp-status''] = Some c \<longrightarrow>
                    elem_text c \<in> {Some ''Not compatible'', Some ''Incorrect protocol'',
                                    Some ''Not present'', Some ''OK''})"
  shows "\<exists>d. sfp_status P base = Inr d"
  using assms
  by (auto simp: sfp_status_def Let_def getitem_def bindE_def sfp_status_map_def
           split: option.splits)

lemma port_readable:
  assumes main: "\<forall>n\<in>{''port'', ''health-numeric'', ''port-type'', ''actual-speed'', ''status''}.
                   find_elem P [PROPERTY n] \<noteq> None"
      and sfp: "case find_elem P [OBJECT ''port-details'', PROPERTY ''sfp-status-numeric''] of
             Some numeric \<Rightarrow> find_elem P [OBJECT ''port-details'', PROPERTY ''sfp-status''] \<noteq> None
           | None \<Rightarrow>
               (\<forall>c. find_elem P [OBJECT ''port-details'', PROPERTY ''sfp-status''] = Some c \<longrightarrow>
                    elem_text c \<in> {Some ''Not compatible'', Some ''Incorrect protocol'',
                                    Some ''Not present'', Some ''OK''})"
  shows "\<exists>n d. prop_text P ''port'' = Inr n \<and> port_data P = Inr d"
proof -
  from main obtain e where "find_elem P [PROPERTY ''port''] = Some e" by auto
  then have n: "prop_text P ''port'' = Inr (elem_text e)"
    by (simp add: prop_text_def find_text_def)
  from main have "\<forall>n\<in>{''health-numeric'', ''port-type'', ''actual-speed'', ''status''}.
                   find_elem P [PROPERTY n] \<noteq> None" by simp
  from port_data_found[OF this] obtain h pt pas ps where
    "port_data P = sfp_status P [(''h'', h), (''pt'', pt), (''pas'', pas), (''ps'', ps)]" by blast
  with sfp_status_readable[OF sfp] obtain d where "port_data P = Inr d" by metis
  with n show ?thesis by blast
qed

text \<open>
  The loop over such ports raises nothing, and leaves alone the entries of the other
  names. So a port of the response that is read without an exception, and whose name no
  later port bears, has its metrics in the result; and the exception of the first port
  that raises one is the exception of \<open>get_full_json\<close>.
\<close>

lemma for_ports_readable:
  assumes "\<forall>P\<in>set parts. \<exists>n d. prop_text P ''port'' = Inr n \<and> port_data P = Inr d"
  shows "\<exists>acc1. for_parts (pure ports_part) parts acc w = (Inr acc1, w)
           \<and> (\<forall>k. (\<forall>P\<in>set parts. prop_text P ''port'' \<noteq> Inr k) \<longrightarrow> map_of acc1 k = map_of acc k)"
  using assms
proof (induction parts arbitrary: acc)
  case Nil
  then show ?case by simp
next
  case (Cons P parts)
  from Cons.prems obtain n d where n: "prop_text P ''port'' = Inr n" and d: "port_data P = Inr d"
    by auto
  from Cons.prems have "\<forall>P\<in>set parts. \<exists>n d. prop_text P ''port'' = Inr n \<and> port_data P = Inr d"
    by simp
  from Cons.IH[OF this, of "setitem acc n d"] obtain acc1 where
    l: "for_parts (pure ports_part) parts (setitem acc n d) w = (Inr acc1, w)"
    and k: "\<forall>k. (\<forall>P\<in>set parts. prop_text P ''port'' \<noteq> Inr k) \<longrightarrow>
                 map_of acc1 k = map_of (setitem acc n d) k"
    by blast
  from l have "for_parts (pure ports_part) (P # parts) acc w = (Inr acc1, w)"
    by (simp add: for_parts_pure ports_part_Inr[OF n d] del: for_parts.simps)
  moreover from k n have "\<forall>k. (\<forall>P\<in>set (P # parts). prop_text P ''port'' \<noteq> Inr k) \<longrightarrow>
                 map_of acc1 k = map_of acc k"
    by (auto simp: map_of_setitem)
  ultimately show ?case by blast
qed

lemma full_ports_entry:
  assumes q: "query_xmlapi cfg ev (show_url cfg msa ''ports'') sk w = (Inr (Some ''0'', rd, xml), w1)"
      and parts: "findall xml [OBJECT ''ports''] = before @ FC # after"
      and before: "\<forall>P\<in>set before. \<exists>n d. prop_text P ''port'' = Inr n \<and> port_data P = Inr d"
      and after: "\<forall>P\<in>set after. \<exists>n d. prop_text P ''port'' = Inr n \<and> port_data P = Inr d"
      and last: "\<forall>P\<in>set after. prop_text P ''port'' \<noteq> Inr port_name"
      and n: "prop_text FC ''port'' = Inr port_name"
      and d: "port_data FC = Inr d"
  shows "\<exists>all_components. get_full_json cfg ev msa ''ports'' sk False w = (Inr all_components, w1)
           \<and> map_of all_components port_name = Some d"
proof -
  from for_ports_readable[OF before, of "[]" w1] obtain acc1 where
    1: "for_parts (pure ports_part) before [] w1 = (Inr acc1, w1)" by blast
  from for_ports_readable[OF after, of "setitem acc1 port_name d" w1] last obtain acc2 where
    2: "for_parts (pure ports_part) after (setitem acc1 port_name d) w1 = (Inr acc2, w1)"
    and 3: "map_of acc2 port_name = map_of (setitem acc1 port_name d) port_name"
    by blast
  from 1 2 have "for_parts (pure ports_part) (before @ FC # after) [] w1 = (Inr acc2, w1)"
    by (simp add: for_parts_pure_append for_parts_pure ports_part_Inr[OF n d] del: for_parts.simps)
  then have "get_full_json cfg ev msa ''ports'' sk False w = (Inr acc2, w1)"
    unfolding get_full_json_ports[OF q] parts by (simp add: bindS_def return_def)
  with 3 show ?thesis by (simp add: map_of_setitem)
qed

lemma full_ports_raises:
  assumes q: "query_xmlapi cfg ev (show_url cfg msa ''ports'') sk w = (Inr (Some ''0'', rd, xml), w1)"
      and parts: "findall xml [OBJECT ''ports''] = before @ FC # after"
      and before: "\<forall>P\<in>set before. \<exists>n d. prop_text P ''port'' = Inr n \<and> port_data P = Inr d"
      and n: "prop_text FC ''port'' = Inr port_name"
      and d: "port_data FC = Inl e"
  shows "get_full_json cfg ev msa ''ports'' sk human w = (Inl e, w1)"
proof -
  from for_ports_readable[OF before, of "[]" w1] obtain acc1 where
    1: "for_parts (pure ports_part) before [] w1 = (Inr acc1, w1)" by blast
  have "ports_part FC acc1 = Inl e" using n d by (simp add: ports_part_def bindE_def)
  with 1 have "for_parts (pure ports_part) (before @ FC # after) [] w1 = (Inl e, w1)"
    by (simp add: for_parts_pure_append for_parts_pure del: for_parts.simps)
  then show ?thesis
    unfolding get_full_json_ports[OF q] parts by (simp add: bindS_def)
qed

text \<open>
  The examples: the response with the port \<open>A1\<close>, whose \<open>port-details\<close> hold only
  \<open>sfp-status\<close>, and the response with the port \<open>B2\<close>, which has \<open>status-numeric\<close> and no
  \<open>port-details\<close>, before the port \<open>A1\<close>.
\<close>

lemma ports_doc_query:
  "query_xmlapi http_cfg (serving (ports_doc sfp)) (show_url http_cfg msa1 ''ports'') sk w
   = (Inr (Some ''0'', Some ''Command completed successfully.'', ports_doc sfp),
      requested http_cfg (serving (ports_doc sfp)) (show_url http_cfg msa1 ''ports'') sk w)"
  by (simp add: example_defs xml_defs api_defs io_defs Let_def)

lemma two_ports_doc_query:
  "query_xmlapi http_cfg (serving (two_ports_doc sfp)) (show_url http_cfg msa1 ''ports'') sk w
   = (Inr (Some ''0'', Some ''Command completed successfully.'', two_ports_doc sfp),
      requested http_cfg (serving (two_ports_doc sfp)) (show_url http_cfg msa1 ''ports'') sk w)"
  by (simp add: example_defs xml_defs api_defs io_defs Let_def)

lemma two_ports_parts:
  "findall (two_ports_doc sfp) [OBJECT ''ports''] = [] @ port_B2 # [port_A1 sfp]"
  "findall (two_ports_doc sfp) [OBJECT ''ports''] = [port_B2] @ port_A1 sfp # []"
  by (simp_all add: example_defs xml_defs)

lemma two_ports_readable:
  "\<forall>P\<in>set ([] @ port_B2 # [port_A1 ''OK'']).
           (\<forall>n\<in>{''port'', ''health-numeric'', ''port-type'', ''actual-speed'', ''status''}.
               find_elem P [PROPERTY n] \<noteq> None)
           \<and> (case find_elem P [OBJECT ''port-details'', PROPERTY ''sfp-status-numeric''] of
                 Some numeric \<Rightarrow> find_elem P [OBJECT ''port-details'', PROPERTY ''sfp-status''] \<noteq> None
               | None \<Rightarrow>
                   (\<forall>c. find_elem P [OBJECT ''port-details'', PROPERTY ''sfp-status''] = Some c \<longrightarrow>
                        elem_text c \<in> {Some ''Not compatible'', Some ''Incorrect protocol'',
                                        Some ''Not present'', Some ''OK''}))"
  by (simp add: example_defs xml_defs)

lemma two_ports_last:
  "\<forall>P\<in>set [port_A1 ''OK'']. find_text P [PROPERTY ''port''] \<noteq> find_text port_B2 [PROPERTY ''port'']"
  by (simp add: example_defs xml_defs)

lemma port_B2_props:
  "find_text port_B2 [PROPERTY ''port''] = Inr (Some ''B2'')"
  "find_text port_B2 [PROPERTY ''status''] = Inr (Some ''Disconnected'')"
  "find_elem port_B2 [PROPERTY ''status-numeric''] = Some (property ''status-numeric'' ''2'')"
  "elem_text (property ''status-numeric'' ''2'') = Some ''2''"
  by (simp_all add: example_defs xml_defs)

lemma port_B2_readable:
  "\<forall>P\<in>set [port_B2].
           (\<forall>n\<in>{''port'', ''health-numeric'', ''port-type'', ''actual-speed'', ''status''}.
               find_elem P [PROPERTY n] \<noteq> None)
           \<and> (case find_elem P [OBJECT ''port-details'', PROPERTY ''sfp-status-numeric''] of
                 Some numeric \<Rightarrow> find_elem P [OBJECT ''port-details'', PROPERTY ''sfp-status''] \<noteq> None
               | None \<Rightarrow>
                   (\<forall>c. find_elem P [OBJECT ''port-details'', PROPERTY ''sfp-status''] = Some c \<longrightarrow>
                        elem_text c \<in> {Some ''Not compatible'', Some ''Incorrect protocol'',
                                        Some ''Not present'', Some ''OK''}))"
  by (simp add: example_defs xml_defs)

lemma port_A1_sfp:
  "find_elem (port_A1 sfp) [OBJECT ''port-details'', PROPERTY ''sfp-status-numeric''] = None"
  "find_elem (port_A1 sfp) [OBJECT ''port-details'', PROPERTY ''sfp-status'']
     = Some (property ''sfp-status'' sfp)"
  "elem_text (property ''sfp-status'' sfp) = Some sfp"
  by (simp_all add: example_defs xml_defs)

lemma port_A1_five:
  "\<forall>n\<in>{''port'', ''health-numeric'', ''port-type'', ''actual-speed'', ''status''}.
     find_elem (port_A1 sfp) [PROPERTY n] \<noteq> None"
  "find_text (port_A1 sfp) [PROPERTY ''port''] = Inr (Some ''A1'')"
  by (simp_all add: example_defs xml_defs)

text \<open>
  C10. In full mode the key \<open>ps\<close> of a port holds the text of \<open>status-numeric\<close> when the
  port has that property and the text of \<open>status\<close> otherwise, and the textual status has
  no key of its own. For a response all of whose ports are read without an exception,
  and a port \<open>FC\<close> of it whose name no later port bears: \<open>get_full_json\<close> (called without
  \<open>human\<close>) returns a dictionary that has, under the name of \<open>FC\<close>, metrics whose \<open>ps\<close> is
  as said and whose keys are \<open>h\<close>, \<open>pt\<close>, \<open>pas\<close>, \<open>ps\<close>, followed or not by \<open>ss\<close> and
  \<open>sfps\<close>, the two keys of the SFP status.
\<close>

theorem port_status_numeric_in_ps:
  assumes q: "query_xmlapi cfg ev (show_url cfg msa ''ports'') sessionkey w = (Inr (Some ''0'', rd, xml), w1)"
      and parts: "findall xml [OBJECT ''ports''] = before @ FC # after"
      and readable:
        "\<forall>P\<in>set (before @ FC # after).
           (\<forall>n\<in>{''port'', ''health-numeric'', ''port-type'', ''actual-speed'', ''status''}.
               find_elem P [PROPERTY n] \<noteq> None)
           \<and> (case find_elem P [OBJECT ''port-details'', PROPERTY ''sfp-status-numeric''] of
                 Some numeric \<Rightarrow> find_elem P [OBJECT ''port-details'', PROPERTY ''sfp-status''] \<noteq> None
               | None \<Rightarrow>
                   (\<forall>c. find_elem P [OBJECT ''port-details'', PROPERTY ''sfp-status''] = Some c \<longrightarrow>
                        elem_text c \<in> {Some ''Not compatible'', Some ''Incorrect protocol'',
                                        Some ''Not present'', Some ''OK''}))"
      and last: "\<forall>P\<in>set after. find_text P [PROPERTY ''port''] \<noteq> find_text FC [PROPERTY ''port'']"
  shows "\<exists>all_components port_name st d.
           get_full_json cfg ev msa ''ports'' sessionkey False w = (Inr all_components, w1)
           \<and> find_text FC [PROPERTY ''port''] = Inr port_name
           \<and> find_text FC [PROPERTY ''status''] = Inr st
           \<and> map_of all_components port_name = Some d
           \<and> map_of d ''ps'' = Some (case find_elem FC [PROPERTY ''status-numeric''] of
                                      None \<Rightarrow> st | Some numeric \<Rightarrow> elem_text numeric)
           \<and> (keys d = [''h'', ''pt'', ''pas'', ''ps'']
              \<or> keys d = [''h'', ''pt'', ''pas'', ''ps'', ''ss'', ''sfps''])"
proof -
  have r: "\<forall>P\<in>set (before @ FC # after). \<exists>n d. prop_text P ''port'' = Inr n \<and> port_data P = Inr d"
  proof
    fix P assume "P \<in> set (before @ FC # after)"
    from bspec[OF readable this] show "\<exists>n d. prop_text P ''port'' = Inr n \<and> port_data P = Inr d"
      by (intro port_readable) (rule conjunct1, assumption, rule conjunct2, assumption)
  qed
  then obtain port_name d where n: "prop_text FC ''port'' = Inr port_name"
    and d: "port_data FC = Inr d" by auto
  from r have b: "\<forall>P\<in>set before. \<exists>n d. prop_text P ''port'' = Inr n \<and> port_data P = Inr d"
    and a: "\<forall>P\<in>set after. \<exists>n d. prop_text P ''port'' = Inr n \<and> port_data P = Inr d"
    by auto
  from last n have l: "\<forall>P\<in>set after. prop_text P ''port'' \<noteq> Inr port_name"
    by (simp add: prop_text_def)
  from full_ports_entry[OF q parts b a l n d] obtain all_components where
    g: "get_full_json cfg ev msa ''ports'' sessionkey False w = (Inr all_components, w1)"
    and m: "map_of all_components port_name = Some d" by blast
  from port_data_Inr[OF d] obtain h pt pas st where
    st: "prop_text FC ''status'' = Inr st"
    and s: "sfp_status FC [(''h'', h), (''pt'', pt), (''pas'', pas),
              (''ps'', case find_elem FC [PROPERTY ''status-numeric''] of None \<Rightarrow> st | Some e \<Rightarrow> elem_text e)] = Inr d"
    by blast
  from sfp_status_Inr[OF s] have
    "map_of d ''ps'' = Some (case find_elem FC [PROPERTY ''status-numeric''] of
                                        None \<Rightarrow> st | Some numeric \<Rightarrow> elem_text numeric)
     \<and> (keys d = [''h'', ''pt'', ''pas'', ''ps'']
                \<or> keys d = [''h'', ''pt'', ''pas'', ''ps'', ''ss'', ''sfps''])"
    by (auto simp: keys_def)
  with g m n st show ?thesis unfolding prop_text_def by blast
qed

theorem port_status_numeric_in_ps_witness:
  "findall (two_ports_doc ''OK'') [OBJECT ''ports''] = [] @ port_B2 # [port_A1 ''OK'']
   \<and> find_text port_B2 [PROPERTY ''status''] = Inr (Some ''Disconnected'')
   \<and> find_elem port_B2 [PROPERTY ''status-numeric''] = Some (property ''status-numeric'' ''2'')
   \<and> (\<exists>all_components d.
         get_full_json http_cfg (serving (two_ports_doc ''OK'')) msa1 ''ports'' (Some ''SESSIONKEY1'')
           False (at_noon (Present []))
         = (Inr all_components,
            requested http_cfg (serving (two_ports_doc ''OK'')) (show_url http_cfg msa1 ''ports'')
              (Some ''SESSIONKEY1'') (at_noon (Present [])))
         \<and> map_of all_components (Some ''B2'') = Some d
         \<and> map_of d ''ps'' = Some (Some ''2'')
         \<and> (keys d = [''h'', ''pt'', ''pas'', ''ps'']
            \<or> keys d = [''h'', ''pt'', ''pas'', ''ps'', ''ss'', ''sfps'']))"
proof -
  from port_status_numeric_in_ps[OF two_ports_doc_query two_ports_parts(1) two_ports_readable
      two_ports_last, of "Some ''SESSIONKEY1''" "at_noon (Present [])"]
  have "\<exists>all_components d.
         get_full_json http_cfg (serving (two_ports_doc ''OK'')) msa1 ''ports'' (Some ''SESSIONKEY1'')
           False (at_noon (Present []))
         = (Inr all_components,
            requested http_cfg (serving (two_ports_doc ''OK'')) (show_url http_cfg msa1 ''ports'')
              (Some ''SESSIONKEY1'') (at_noon (Present [])))
         \<and> map_of all_components (Some ''B2'') = Some d
         \<and> map_of d ''ps'' = Some (Some ''2'')
         \<and> (keys d = [''h'', ''pt'', ''pas'', ''ps'']
            \<or> keys d = [''h'', ''pt'', ''pas'', ''ps'', ''ss'', ''sfps''])"
    by (simp add: port_B2_props)
  with two_ports_parts(1) port_B2_props(2) port_B2_props(3) show ?thesis by blast
qed

section \<open>The SFP status of a port\<close>

text \<open>
  C6. A port \<open>FC\<close> of a ports response that has its name and its four main properties,
  and whose \<open>port-details\<close> have \<open>sfp-status\<close> and no \<open>sfp-status-numeric\<close>, the ports
  before it being read without an exception.

  When the text of \<open>sfp-status\<close> is one of \<open>Not compatible\<close>, \<open>Incorrect protocol\<close>,
  \<open>Not present\<close> and \<open>OK\<close>, and the ports after \<open>FC\<close> are read without an exception and
  have other names, \<open>get_full_json\<close> (called without \<open>human\<close>) returns a dictionary
  that has, under the name of \<open>FC\<close>, metrics whose \<open>ss\<close> is the code \<open>0\<close>, \<open>1\<close>, \<open>2\<close>,
  \<open>3\<close> of the text and whose \<open>sfps\<close> is the text.

  When the text is any other, \<open>get_full_json\<close> (with or without \<open>human\<close>) raises the
  \<open>KeyError\<close> of the lookup \<open>sfp_status_map[sfp_status_char.text]\<close>, with that text as
  its key. The script has no exception class of its own and catches this one nowhere.
\<close>

theorem sfp_status_text_to_code:
  assumes q: "query_xmlapi cfg ev (show_url cfg msa ''ports'') sessionkey w = (Inr (Some ''0'', rd, xml), w1)"
      and parts: "findall xml [OBJECT ''ports''] = before @ FC # after"
      and before:
        "\<forall>P\<in>set before.
           (\<forall>n\<in>{''port'', ''health-numeric'', ''port-type'', ''actual-speed'', ''status''}.
               find_elem P [PROPERTY n] \<noteq> None)
           \<and> (case find_elem P [OBJECT ''port-details'', PROPERTY ''sfp-status-numeric''] of
                 Some numeric \<Rightarrow> find_elem P [OBJECT ''port-details'', PROPERTY ''sfp-status''] \<noteq> None
               | None \<Rightarrow>
                   (\<forall>c. find_elem P [OBJECT ''port-details'', PROPERTY ''sfp-status''] = Some c \<longrightarrow>
                        elem_text c \<in> {Some ''Not compatible'', Some ''Incorrect protocol'',
                                        Some ''Not present'', Some ''OK''}))"
      and main: "\<forall>n\<in>{''port'', ''health-numeric'', ''port-type'', ''actual-speed'', ''status''}.
                   find_elem FC [PROPERTY n] \<noteq> None"
      and num: "find_elem FC [OBJECT ''port-details'', PROPERTY ''sfp-status-numeric''] = None"
      and chr: "find_elem FC [OBJECT ''port-details'', PROPERTY ''sfp-status''] = Some sfp_status_char"
  shows "(\<forall>(t, code)\<in>{(''Not compatible'', ''0''), (''Incorrect protocol'', ''1''),
                        (''Not present'', ''2''), (''OK'', ''3'')}.
            elem_text sfp_status_char = Some t \<longrightarrow>
            (\<forall>P\<in>set after.
               find_text P [PROPERTY ''port''] \<noteq> find_text FC [PROPERTY ''port'']
               \<and> (\<forall>n\<in>{''port'', ''health-numeric'', ''port-type'', ''actual-speed'', ''status''}.
                     find_elem P [PROPERTY n] \<noteq> None)
               \<and> (case find_elem P [OBJECT ''port-details'', PROPERTY ''sfp-status-numeric''] of
                     Some numeric \<Rightarrow> find_elem P [OBJECT ''port-details'', PROPERTY ''sfp-status''] \<noteq> None
                   | None \<Rightarrow>
                       (\<forall>c. find_elem P [OBJECT ''port-details'', PROPERTY ''sfp-status''] = Some c \<longrightarrow>
                            elem_text c \<in> {Some ''Not compatible'', Some ''Incorrect protocol'',
                                            Some ''Not present'', Some ''OK''}))) \<longrightarrow>
            (\<exists>all_components port_name d.
               get_full_json cfg ev msa ''ports'' sessionkey False w = (Inr all_components, w1)
               \<and> find_text FC [PROPERTY ''port''] = Inr port_name
               \<and> map_of all_components port_name = Some d
               \<and> map_of d ''ss'' = Some (Some code)
               \<and> map_of d ''sfps'' = Some (Some t)))
       \<and> (elem_text sfp_status_char \<notin> {Some ''Not compatible'', Some ''Incorrect protocol'',
                                          Some ''Not present'', Some ''OK''} \<longrightarrow>
          get_full_json cfg ev msa ''ports'' sessionkey human w
            = (Inl (KeyError (elem_text sfp_status_char)), w1))"
proof -
  have b: "\<forall>P\<in>set before. \<exists>n d. prop_text P ''port'' = Inr n \<and> port_data P = Inr d"
  proof
    fix P assume "P \<in> set before"
    from bspec[OF before this] show "\<exists>n d. prop_text P ''port'' = Inr n \<and> port_data P = Inr d"
      by (intro port_readable) (rule conjunct1, assumption, rule conjunct2, assumption)
  qed
  from main obtain e where "find_elem FC [PROPERTY ''port''] = Some e" by auto
  then have n: "prop_text FC ''port'' = Inr (elem_text e)"
    by (simp add: prop_text_def find_text_def)
  from main have "\<forall>n\<in>{''health-numeric'', ''port-type'', ''actual-speed'', ''status''}.
                   find_elem FC [PROPERTY n] \<noteq> None" by simp
  from port_data_found[OF this] obtain h pt pas ps where
    pd: "port_data FC = sfp_status FC [(''h'', h), (''pt'', pt), (''pas'', pas), (''ps'', ps)]"
    by blast
  have known: "\<exists>all_components port_name d.
               get_full_json cfg ev msa ''ports'' sessionkey False w = (Inr all_components, w1)
               \<and> find_text FC [PROPERTY ''port''] = Inr port_name
               \<and> map_of all_components port_name = Some d
               \<and> map_of d ''ss'' = Some (Some code)
               \<and> map_of d ''sfps'' = Some (Some t)"
    if t: "elem_text sfp_status_char = Some t" and c: "map_of sfp_status_map t = Some code"
      and a: "\<forall>P\<in>set after. \<exists>n d. prop_text P ''port'' = Inr n \<and> port_data P = Inr d"
      and l: "\<forall>P\<in>set after. prop_text P ''port'' \<noteq> Inr (elem_text e)"
    for t code
  proof -
    let ?d = "setitem (setitem [(''h'', h), (''pt'', pt), (''pas'', pas), (''ps'', ps)] ''ss'' (Some code))
                ''sfps'' (Some t)"
    have d: "port_data FC = Inr ?d"
      unfolding pd sfp_status_text[OF num chr] by (simp add: t c)
    from full_ports_entry[OF q parts b a l n d] obtain all_components where
      "get_full_json cfg ev msa ''ports'' sessionkey False w = (Inr all_components, w1)"
      "map_of all_components (elem_text e) = Some ?d" by blast
    moreover have "map_of ?d ''ss'' = Some (Some code)" "map_of ?d ''sfps'' = Some (Some t)"
      by (simp_all add: map_of_setitem)
    moreover note n[unfolded prop_text_def]
    ultimately show ?thesis by blast
  qed
  show ?thesis
  proof (intro conjI ballI impI)
    fix x
    assume x: "x \<in> {(''Not compatible'', ''0''), (''Incorrect protocol'', ''1''),
                        (''Not present'', ''2''), (''OK'', ''3'')}"
    obtain t code where tc: "x = (t, code)" by (cases x)
    with x have c: "map_of sfp_status_map t = Some code"
      by (auto simp: sfp_status_map_def)
    show "case x of (t, code) \<Rightarrow>
            elem_text sfp_status_char = Some t \<longrightarrow>
            (\<forall>P\<in>set after.
               find_text P [PROPERTY ''port''] \<noteq> find_text FC [PROPERTY ''port'']
               \<and> (\<forall>n\<in>{''port'', ''health-numeric'', ''port-type'', ''actual-speed'', ''status''}.
                     find_elem P [PROPERTY n] \<noteq> None)
               \<and> (case find_elem P [OBJECT ''port-details'', PROPERTY ''sfp-status-numeric''] of
                     Some numeric \<Rightarrow> find_elem P [OBJECT ''port-details'', PROPERTY ''sfp-status''] \<noteq> None
                   | None \<Rightarrow>
                       (\<forall>c. find_elem P [OBJECT ''port-details'', PROPERTY ''sfp-status''] = Some c \<longrightarrow>
                            elem_text c \<in> {Some ''Not compatible'', Some ''Incorrect protocol'',
                                            Some ''Not present'', Some ''OK''}))) \<longrightarrow>
            (\<exists>all_components port_name d.
               get_full_json cfg ev msa ''ports'' sessionkey False w = (Inr all_components, w1)
               \<and> find_text FC [PROPERTY ''port''] = Inr port_name
               \<and> map_of all_components port_name = Some d
               \<and> map_of d ''ss'' = Some (Some code)
               \<and> map_of d ''sfps'' = Some (Some t))"
      unfolding tc prod.case
    proof (intro impI)
      assume t: "elem_text sfp_status_char = Some t"
      assume after: "\<forall>P\<in>set after.
               find_text P [PROPERTY ''port''] \<noteq> find_text FC [PROPERTY ''port'']
               \<and> (\<forall>n\<in>{''port'', ''health-numeric'', ''port-type'', ''actual-speed'', ''status''}.
                     find_elem P [PROPERTY n] \<noteq> None)
               \<and> (case find_elem P [OBJECT ''port-details'', PROPERTY ''sfp-status-numeric''] of
                     Some numeric \<Rightarrow> find_elem P [OBJECT ''port-details'', PROPERTY ''sfp-status''] \<noteq> None
                   | None \<Rightarrow>
                       (\<forall>c. find_elem P [OBJECT ''port-details'', PROPERTY ''sfp-status''] = Some c \<longrightarrow>
                            elem_text c \<in> {Some ''Not compatible'', Some ''Incorrect protocol'',
                                            Some ''Not present'', Some ''OK''}))"
      have a: "\<forall>P\<in>set after. \<exists>n d. prop_text P ''port'' = Inr n \<and> port_data P = Inr d"
      proof
        fix P assume "P \<in> set after"
        from bspec[OF after this]
        have "(\<forall>n\<in>{''port'', ''health-numeric'', ''port-type'', ''actual-speed'', ''status''}.
                     find_elem P [PROPERTY n] \<noteq> None)
               \<and> (case find_elem P [OBJECT ''port-details'', PROPERTY ''sfp-status-numeric''] of
                     Some numeric \<Rightarrow> find_elem P [OBJECT ''port-details'', PROPERTY ''sfp-status''] \<noteq> None
                   | None \<Rightarrow>
                       (\<forall>c. find_elem P [OBJECT ''port-details'', PROPERTY ''sfp-status''] = Some c \<longrightarrow>
                            elem_text c \<in> {Some ''Not compatible'', Some ''Incorrect protocol'',
                                            Some ''Not present'', Some ''OK''}))"
          by (rule conjunct2)
        then show "\<exists>n d. prop_text P ''port'' = Inr n \<and> port_data P = Inr d"
          by (intro port_readable) (rule conjunct1, assumption, rule conjunct2, assumption)
      qed
      have l: "\<forall>P\<in>set after. prop_text P ''port'' \<noteq> Inr (elem_text e)"
      proof
        fix P assume "P \<in> set after"
        from bspec[OF after this]
        have "find_text P [PROPERTY ''port''] \<noteq> find_text FC [PROPERTY ''port'']"
          by (rule conjunct1)
        with n show "prop_text P ''port'' \<noteq> Inr (elem_text e)" by (simp add: prop_text_def)
      qed
      from known[OF t c a l] show "\<exists>all_components port_name d.
               get_full_json cfg ev msa ''ports'' sessionkey False w = (Inr all_components, w1)
               \<and> find_text FC [PROPERTY ''port''] = Inr port_name
               \<and> map_of all_components port_name = Some d
               \<and> map_of d ''ss'' = Some (Some code)
               \<and> map_of d ''sfps'' = Some (Some t)" .
    qed
  next
    assume t: "elem_text sfp_status_char \<notin> {Some ''Not compatible'', Some ''Incorrect protocol'',
                                          Some ''Not present'', Some ''OK''}"
    have "port_data FC = Inl (KeyError (elem_text sfp_status_char))"
      unfolding pd sfp_status_text[OF num chr] sfp_status_map_cases using t
      by (auto split: option.splits)
    from full_ports_raises[OF q parts b n this]
    show "get_full_json cfg ev msa ''ports'' sessionkey human w
            = (Inl (KeyError (elem_text sfp_status_char)), w1)" .
  qed
qed

theorem sfp_status_text_to_code_witness:
  "findall (two_ports_doc ''OK'') [OBJECT ''ports''] = [port_B2] @ port_A1 ''OK'' # []
   \<and> find_elem (port_A1 ''OK'') [OBJECT ''port-details'', PROPERTY ''sfp-status-numeric''] = None
   \<and> find_elem (port_A1 ''OK'') [OBJECT ''port-details'', PROPERTY ''sfp-status'']
       = Some (property ''sfp-status'' ''OK'')
   \<and> (\<exists>all_components d.
         get_full_json http_cfg (serving (two_ports_doc ''OK'')) msa1 ''ports'' (Some ''SESSIONKEY1'')
           False (at_noon (Present []))
         = (Inr all_components,
            requested http_cfg (serving (two_ports_doc ''OK'')) (show_url http_cfg msa1 ''ports'')
              (Some ''SESSIONKEY1'') (at_noon (Present [])))
         \<and> map_of all_components (Some ''A1'') = Some d
         \<and> map_of d ''ss'' = Some (Some ''3'')
         \<and> map_of d ''sfps'' = Some (Some ''OK''))
   \<and> get_full_json http_cfg (serving (two_ports_doc ''Unplugged'')) msa1 ''ports''
        (Some ''SESSIONKEY1'') False (at_noon (Present []))
      = (Inl (KeyError (Some ''Unplugged'')),
         requested http_cfg (serving (two_ports_doc ''Unplugged'')) (show_url http_cfg msa1 ''ports'')
           (Some ''SESSIONKEY1'') (at_noon (Present [])))"
proof -
  note ok = sfp_status_text_to_code[where human = False and after = "[]",
      OF two_ports_doc_query[of "''OK''" "Some ''SESSIONKEY1''" "at_noon (Present [])"]
         two_ports_parts(2) port_B2_readable port_A1_five(1) port_A1_sfp(1) port_A1_sfp(2)]
  note bad = sfp_status_text_to_code[where human = False and after = "[]",
      OF two_ports_doc_query[of "''Unplugged''" "Some ''SESSIONKEY1''" "at_noon (Present [])"]
         two_ports_parts(2) port_B2_readable port_A1_five(1) port_A1_sfp(1) port_A1_sfp(2)]
  from ok have 1: "\<exists>all_components d.
         get_full_json http_cfg (serving (two_ports_doc ''OK'')) msa1 ''ports'' (Some ''SESSIONKEY1'')
           False (at_noon (Present []))
         = (Inr all_components,
            requested http_cfg (serving (two_ports_doc ''OK'')) (show_url http_cfg msa1 ''ports'')
              (Some ''SESSIONKEY1'') (at_noon (Present [])))
         \<and> map_of all_components (Some ''A1'') = Some d
         \<and> map_of d ''ss'' = Some (Some ''3'')
         \<and> map_of d ''sfps'' = Some (Some ''OK'')"
    by (simp add: port_A1_sfp(3) port_A1_five(2))
  from bad have 2: "get_full_json http_cfg (serving (two_ports_doc ''Unplugged'')) msa1 ''ports''
        (Some ''SESSIONKEY1'') False (at_noon (Present []))
      = (Inl (KeyError (Some ''Unplugged'')),
         requested http_cfg (serving (two_ports_doc ''Unplugged'')) (show_url http_cfg msa1 ''ports'')
           (Some ''SESSIONKEY1'') (at_noon (Present [])))"
    by (simp add: port_A1_sfp(3))
  from 1 2 two_ports_parts(2) port_A1_sfp(1) port_A1_sfp(2) show ?thesis by blast
qed

section \<open>Discovery\<close>

lemma foldl_setitem_other:
  "macro \<notin> fst ` set props
   \<Longrightarrow> map_of (foldl (\<lambda>d (macro, prop). setitem d macro (g prop)) d0 props) macro = map_of d0 macro"
  by (induction props arbitrary: d0) (auto simp: map_of_setitem)

lemma foldl_setitem_lookup:
  "distinct (map fst props) \<Longrightarrow> (macro, prop) \<in> set props
   \<Longrightarrow> map_of (foldl (\<lambda>d (macro, prop). setitem d macro (g prop)) d0 props) macro = Some (g prop)"
proof (induction props arbitrary: d0)
  case Nil
  then show ?case by simp
next
  case (Cons x props)
  show ?case
  proof (cases "x = (macro, prop)")
    case True
    with Cons.prems have "macro \<notin> fst ` set props" by auto
    from foldl_setitem_other[OF this, of g "setitem d0 macro (g prop)"] True
    show ?thesis by (simp add: map_of_setitem)
  next
    case False
    with Cons.prems have "(macro, prop) \<in> set props" "distinct (map fst props)" by auto
    from Cons.IH[OF this(2) this(1)] show ?thesis by simp
  qed
qed

lemma comp_props_distinct:
  assumes "getitem comp_props_map component = Inr props"
  shows "distinct (map fst props) \<and> ''{#PORT.SFP}'' \<notin> fst ` set props"
  using assms
  by (auto simp: getitem_def comp_props_map_def split: if_splits)

lemma comp_names_props:
  assumes "getitem comp_names_map component = Inr name"
  shows "\<exists>props. getitem comp_props_map component = Inr props"
  using assms
  by (auto simp: getitem_def comp_names_map_def comp_props_map_def split: if_splits)


lemma text_or_unknown_missing: "find_elem part path = None \<Longrightarrow> text_or_unknown part path = Some ''UNKNOWN''"
  by (simp add: text_or_unknown_def find_text_def)

lemma lld_entry_Inr:
  assumes props: "getitem comp_props_map component = Inr props"
  shows "\<exists>d. lld_entry component part = Inr d
           \<and> (\<forall>(macro, prop)\<in>set props. map_of d macro = Some (text_or_unknown part [PROPERTY prop]))
           \<and> (component = ''ports'' \<longrightarrow>
                map_of d ''{#PORT.SFP}''
                  = Some (text_or_unknown part [OBJECT ''port-details'', PROPERTY ''sfp-present'']))"
proof -
  let ?d = "foldl (\<lambda>d (macro, prop). setitem d macro (text_or_unknown part [PROPERTY prop])) [] props"
  from comp_props_distinct[OF props] have dist: "distinct (map fst props)"
    and sfp: "''{#PORT.SFP}'' \<notin> fst ` set props" by auto
  have look: "\<forall>(macro, prop)\<in>set props. map_of ?d macro = Some (text_or_unknown part [PROPERTY prop])"
    using foldl_setitem_lookup[OF dist, where g = "\<lambda>prop. text_or_unknown part [PROPERTY prop]"]
    by auto
  show ?thesis
  proof (cases "component = ''ports''")
    case True
    have "lld_entry component part
            = Inr (setitem ?d ''{#PORT.SFP}''
                     (text_or_unknown part [OBJECT ''port-details'', PROPERTY ''sfp-present'']))"
      using props True by (simp add: lld_entry_def bindE_def)
    moreover have "\<forall>(macro, prop)\<in>set props. macro \<noteq> ''{#PORT.SFP}''"
      using sfp by force
    ultimately show ?thesis using look by (auto simp: map_of_setitem)
  next
    case False
    have "lld_entry component part = Inr ?d"
      using props False by (simp add: lld_entry_def bindE_def)
    with look False show ?thesis by auto
  qed
qed

lemma lld_loop_all:
  assumes "\<And>part. part \<in> set parts \<Longrightarrow> \<exists>d. lld_entry component part = Inr d \<and> P part d"
  shows "\<exists>ds. lld_loop component parts acc = Inr (acc @ ds) \<and> list_all2 P parts ds"
  using assms
proof (induction parts arbitrary: acc)
  case Nil
  then show ?case by simp
next
  case (Cons part parts)
  from Cons.prems[of part] obtain d where d: "lld_entry component part = Inr d" "P part d" by auto
  from Cons.IH[of "acc @ [d]"] Cons.prems obtain ds where
    "lld_loop component parts (acc @ [d]) = Inr ((acc @ [d]) @ ds)" "list_all2 P parts ds"
    by auto
  with d have "lld_loop component (part # parts) acc = Inr (acc @ (d # ds)) \<and> list_all2 P (part # parts) (d # ds)"
    by simp
  then show ?case by blast
qed

lemma make_lld_kind:
  assumes "query_xmlapi cfg ev (show_url cfg msa component) sk w = (Inr (Some ''0'', rd, xml), w1)"
      and "getitem comp_names_map component = Inr name"
  shows "make_lld cfg ev msa component sk w =
           (case lld_loop component (findall xml [OBJECT name]) [] of
              Inl e \<Rightarrow> (Inl e, w1) | Inr all_components \<Rightarrow> (Inr all_components, w1))"
  using assms by (simp add: make_lld_def bindS_def raise_def return_def split: sum.splits)

text \<open>
  C4. For each of the ten component kinds and every response with return code 0,
  \<open>make_lld\<close> does not raise: it returns one entry for each object of the kind, in
  order, and in that entry every macro whose property the object lacks holds
  \<open>UNKNOWN\<close>; so does \<open>{#PORT.SFP}\<close> of a port without \<open>sfp-present\<close>.
\<close>

theorem make_lld_unknown:
  assumes q: "query_xmlapi cfg ev (show_url cfg msa component) sessionkey w = (Inr (Some ''0'', rd, xml), w1)"
      and kind: "getitem comp_names_map component = Inr name"
      and props: "getitem comp_props_map component = Inr props"
  shows "\<exists>all_components.
           make_lld cfg ev msa component sessionkey w = (Inr all_components, w1)
           \<and> length all_components = length (findall xml [OBJECT name])
           \<and> (\<forall>i<length all_components. \<forall>(macro, prop)\<in>set props.
                 find_elem (findall xml [OBJECT name] ! i) [PROPERTY prop] = None \<longrightarrow>
                 map_of (all_components ! i) macro = Some (Some ''UNKNOWN''))
           \<and> (component = ''ports'' \<longrightarrow>
                (\<forall>i<length all_components.
                   find_elem (findall xml [OBJECT name] ! i)
                     [OBJECT ''port-details'', PROPERTY ''sfp-present''] = None \<longrightarrow>
                   map_of (all_components ! i) ''{#PORT.SFP}'' = Some (Some ''UNKNOWN'')))"
proof -
  let ?P = "\<lambda>part d.
      (\<forall>(macro, prop)\<in>set props. map_of d macro = Some (text_or_unknown part [PROPERTY prop]))
      \<and> (component = ''ports'' \<longrightarrow>
            map_of d ''{#PORT.SFP}''
              = Some (text_or_unknown part [OBJECT ''port-details'', PROPERTY ''sfp-present'']))"
  let ?parts = "findall xml [OBJECT name]"
  from lld_loop_all[where P = ?P and acc = "[]", of ?parts component] lld_entry_Inr[OF props]
  obtain ds where l: "lld_loop component ?parts [] = Inr ds" and a: "list_all2 ?P ?parts ds"
    by auto
  from l have m: "make_lld cfg ev msa component sessionkey w = (Inr ds, w1)"
    by (simp add: make_lld_kind[OF q kind])
  from a have len: "length ds = length ?parts" by (simp add: list_all2_lengthD)
  have "\<forall>i<length ds. ?P (?parts ! i) (ds ! i)"
  proof (intro allI impI)
    fix i assume "i < length ds"
    with len have "i < length ?parts" by simp
    from list_all2_nthD[OF a this] show "?P (?parts ! i) (ds ! i)" .
  qed
  then have P: "\<And>i. i < length ds \<Longrightarrow> ?P (?parts ! i) (ds ! i)" by blast
  have u: "\<forall>i<length ds. \<forall>(macro, prop)\<in>set props.
                 find_elem (?parts ! i) [PROPERTY prop] = None \<longrightarrow>
                 map_of (ds ! i) macro = Some (Some ''UNKNOWN'')"
  proof (intro allI impI ballI)
    fix i x assume i: "i < length ds" and x: "x \<in> set props"
    obtain k n where mp: "x = (k, n)" by (cases x)
    from P[OF i] x mp have "map_of (ds ! i) k = Some (text_or_unknown (?parts ! i) [PROPERTY n])"
      by blast
    then show "case x of (macro, prop) \<Rightarrow>
                 find_elem (?parts ! i) [PROPERTY prop] = None \<longrightarrow>
                 map_of (ds ! i) macro = Some (Some ''UNKNOWN'')"
      by (simp add: mp text_or_unknown_missing)
  qed
  have s: "component = ''ports'' \<longrightarrow>
                (\<forall>i<length ds.
                   find_elem (?parts ! i) [OBJECT ''port-details'', PROPERTY ''sfp-present''] = None \<longrightarrow>
                   map_of (ds ! i) ''{#PORT.SFP}'' = Some (Some ''UNKNOWN''))"
    using P by (simp add: text_or_unknown_missing)
  from m len u s show ?thesis by blast
qed


text \<open>The example: a disk that has only its location.\<close>

lemma disks_doc_query:
  "query_xmlapi http_cfg (serving disks_doc) (show_url http_cfg msa1 ''disks'') sk w
   = (Inr (Some ''0'', Some ''Command completed successfully.'', disks_doc),
      requested http_cfg (serving disks_doc) (show_url http_cfg msa1 ''disks'') sk w)"
  by (simp add: example_defs xml_defs api_defs io_defs Let_def)

lemma disks_kind:
  "getitem comp_names_map ''disks'' = Inr ''drive''"
  "getitem comp_props_map ''disks''
     = Inr [(''{#DISK.ID}'', ''location''), (''{#DISK.SN}'', ''serial-number''),
            (''{#DISK.MODEL}'', ''model''), (''{#DISK.ARCH}'', ''architecture'')]"
  by (simp_all add: getitem_def comp_names_map_def comp_props_map_def)

lemma disks_doc_drives:
  "findall disks_doc [OBJECT ''drive''] = [bare_disk]"
  "find_elem bare_disk [PROPERTY ''serial-number''] = None"
  by (simp_all add: example_defs xml_defs)

theorem make_lld_unknown_witness:
  "getitem comp_names_map ''disks'' = Inr ''drive''
   \<and> findall disks_doc [OBJECT ''drive''] = [bare_disk]
   \<and> find_elem bare_disk [PROPERTY ''serial-number''] = None
   \<and> (\<exists>all_components.
         make_lld http_cfg (serving disks_doc) msa1 ''disks'' (Some ''SESSIONKEY1'') (at_noon (Present []))
           = (Inr all_components,
              requested http_cfg (serving disks_doc) (show_url http_cfg msa1 ''disks'')
                (Some ''SESSIONKEY1'') (at_noon (Present [])))
         \<and> length all_components = 1
         \<and> map_of (all_components ! 0) ''{#DISK.SN}'' = Some (Some ''UNKNOWN''))"
proof -
  from make_lld_unknown[OF disks_doc_query disks_kind(1) disks_kind(2),
      of "Some ''SESSIONKEY1''" "at_noon (Present [])"]
  obtain all_components where
    m: "make_lld http_cfg (serving disks_doc) msa1 ''disks'' (Some ''SESSIONKEY1'') (at_noon (Present []))
           = (Inr all_components,
              requested http_cfg (serving disks_doc) (show_url http_cfg msa1 ''disks'')
                (Some ''SESSIONKEY1'') (at_noon (Present [])))"
    and l: "length all_components = length (findall disks_doc [OBJECT ''drive''])"
    and u: "\<forall>i<length all_components.
              \<forall>(macro, prop)\<in>set [(''{#DISK.ID}'', ''location''), (''{#DISK.SN}'', ''serial-number''),
                                   (''{#DISK.MODEL}'', ''model''), (''{#DISK.ARCH}'', ''architecture'')].
                 find_elem (findall disks_doc [OBJECT ''drive''] ! i) [PROPERTY prop] = None \<longrightarrow>
                 map_of (all_components ! i) macro = Some (Some ''UNKNOWN'')"
    by blast
  from l have l1: "length all_components = 1" by (simp add: disks_doc_drives(1))
  with u have "map_of (all_components ! 0) ''{#DISK.SN}'' = Some (Some ''UNKNOWN'')"
    by (simp add: disks_doc_drives)
  with m l1 disks_kind(1) disks_doc_drives show ?thesis by blast
qed

section \<open>The SFP of a port in discovery and in full mode\<close>

lemma ports_kind:
  "getitem comp_names_map ''ports'' = Inr ''ports''"
  "getitem comp_props_map ''ports''
     = Inr [(''{#PORT.ID}'', ''port''), (''{#PORT.TYPE}'', ''port-type''),
            (''{#PORT.SPEED}'', ''actual-speed'')]"
  by (simp_all add: getitem_def comp_names_map_def comp_props_map_def)

text \<open>
  C9, as stated, fails. The response has one port whose \<open>port-details\<close> hold the textual
  \<open>sfp-status\<close> \<open>Not present\<close> and no numeric field; the discovery entry has
  \<open>{#PORT.SFP}\<close> = \<open>UNKNOWN\<close>, because \<open>make_lld\<close> reads the property \<open>sfp-present\<close>, which
  this port does not have.
\<close>

theorem port_sfp_macro_counterexample:
  "findall (ports_doc ''Not present'') [OBJECT ''ports''] = [port_A1 ''Not present'']
   \<and> find_elem (port_A1 ''Not present'') [OBJECT ''port-details'', PROPERTY ''sfp-status-numeric''] = None
   \<and> find_text (port_A1 ''Not present'') [OBJECT ''port-details'', PROPERTY ''sfp-status'']
       = Inr (Some ''Not present'')
   \<and> fst (make_lld http_cfg (serving (ports_doc ''Not present'')) msa1 ''ports'' (Some ''SESSIONKEY1'')
            (at_noon (Present [])))
       = Inr [[(''{#PORT.ID}'', Some ''A1''), (''{#PORT.TYPE}'', Some ''FC''),
               (''{#PORT.SPEED}'', Some ''8Gb''), (''{#PORT.SFP}'', Some ''UNKNOWN'')]]
   \<and> map_of [(''{#PORT.ID}'', Some ''A1''), (''{#PORT.TYPE}'', Some ''FC''),
              (''{#PORT.SPEED}'', Some ''8Gb''), (''{#PORT.SFP}'', Some ''UNKNOWN'')] ''{#PORT.SFP}''
       \<noteq> Some (Some ''Not present'')"
  by (simp add: lld_defs example_defs xml_defs io_defs api_defs Let_def)

text \<open>
  C9, amended. For a ports response with one port whose \<open>port-details\<close> hold the textual
  \<open>sfp-status\<close> \<open>Not present\<close> and no numeric field, \<open>make_lld\<close> returns one entry whose
  \<open>{#PORT.SFP}\<close> is the text of the property \<open>sfp-present\<close> of \<open>port-details\<close>, or
  \<open>UNKNOWN\<close> when there is none, whatever \<open>sfp-status\<close> says; and \<open>get_full_json\<close>, when
  the port has its name and its four main properties, returns one entry whose \<open>ss\<close> is
  \<open>2\<close>.
\<close>

theorem port_sfp_present_and_code:
  assumes q: "query_xmlapi cfg ev (show_url cfg msa ''ports'') sessionkey w = (Inr (Some ''0'', rd, xml), w1)"
      and one: "findall xml [OBJECT ''ports''] = [FC]"
      and num: "find_elem FC [OBJECT ''port-details'', PROPERTY ''sfp-status-numeric''] = None"
      and chr: "find_text FC [OBJECT ''port-details'', PROPERTY ''sfp-status''] = Inr (Some ''Not present'')"
  shows "(\<exists>entry. make_lld cfg ev msa ''ports'' sessionkey w = (Inr [entry], w1)
            \<and> map_of entry ''{#PORT.SFP}''
                = Some (case find_elem FC [OBJECT ''port-details'', PROPERTY ''sfp-present''] of
                          None \<Rightarrow> Some ''UNKNOWN'' | Some present \<Rightarrow> elem_text present))
       \<and> ((\<forall>n\<in>{''port'', ''health-numeric'', ''port-type'', ''actual-speed'', ''status''}.
              find_elem FC [PROPERTY n] \<noteq> None) \<longrightarrow>
          (\<exists>port_name d. get_full_json cfg ev msa ''ports'' sessionkey False w = (Inr [(port_name, d)], w1)
             \<and> map_of d ''ss'' = Some (Some ''2'')))"
proof (intro conjI impI)
  from lld_entry_Inr[OF ports_kind(2), of FC] obtain entry where
    e: "lld_entry ''ports'' FC = Inr entry"
    and s: "map_of entry ''{#PORT.SFP}''
              = Some (text_or_unknown FC [OBJECT ''port-details'', PROPERTY ''sfp-present''])"
    by auto
  from e have "make_lld cfg ev msa ''ports'' sessionkey w = (Inr [entry], w1)"
    by (simp add: make_lld_kind[OF q ports_kind(1)] one)
  moreover from s have "map_of entry ''{#PORT.SFP}''
                = Some (case find_elem FC [OBJECT ''port-details'', PROPERTY ''sfp-present''] of
                          None \<Rightarrow> Some ''UNKNOWN'' | Some present \<Rightarrow> elem_text present)"
    by (simp add: text_or_unknown_def find_text_def split: option.splits)
  ultimately show "\<exists>entry. make_lld cfg ev msa ''ports'' sessionkey w = (Inr [entry], w1)
            \<and> map_of entry ''{#PORT.SFP}''
                = Some (case find_elem FC [OBJECT ''port-details'', PROPERTY ''sfp-present''] of
                          None \<Rightarrow> Some ''UNKNOWN'' | Some present \<Rightarrow> elem_text present)"
    by blast
next
  assume found: "\<forall>n\<in>{''port'', ''health-numeric'', ''port-type'', ''actual-speed'', ''status''}.
              find_elem FC [PROPERTY n] \<noteq> None"
  then obtain p where "find_elem FC [PROPERTY ''port''] = Some p" by auto
  then have n: "prop_text FC ''port'' = Inr (elem_text p)"
    by (simp add: prop_text_def find_text_def)
  from found have "\<forall>n\<in>{''health-numeric'', ''port-type'', ''actual-speed'', ''status''}.
              find_elem FC [PROPERTY n] \<noteq> None" by simp
  from port_data_found[OF this] obtain h pt pas ps where
    pd: "port_data FC = sfp_status FC [(''h'', h), (''pt'', pt), (''pas'', pas), (''ps'', ps)]" by blast
  from chr obtain c where c: "find_elem FC [OBJECT ''port-details'', PROPERTY ''sfp-status''] = Some c"
    and t: "elem_text c = Some ''Not present''"
    by (auto simp: find_text_def split: option.splits)
  let ?d = "setitem (setitem [(''h'', h), (''pt'', pt), (''pas'', pas), (''ps'', ps)] ''ss'' (Some ''2''))
              ''sfps'' (Some ''Not present'')"
  have d: "port_data FC = Inr ?d"
    unfolding pd sfp_status_text[OF num c] by (simp add: t sfp_status_map_cases)
  have "get_full_json cfg ev msa ''ports'' sessionkey False w = (Inr [(elem_text p, ?d)], w1)"
    unfolding get_full_json_ports[OF q] one
    by (simp add: bindS_def return_def for_parts_pure ports_part_def bindE_def n d
          del: for_parts.simps)
  moreover have "map_of ?d ''ss'' = Some (Some ''2'')"
    by (simp add: map_of_setitem)
  ultimately show "\<exists>port_name d. get_full_json cfg ev msa ''ports'' sessionkey False w = (Inr [(port_name, d)], w1)
             \<and> map_of d ''ss'' = Some (Some ''2'')"
    by blast
qed


lemma port_A1_only:
  "findall (ports_doc sfp) [OBJECT ''ports''] = [port_A1 sfp]"
  "find_text (port_A1 sfp) [OBJECT ''port-details'', PROPERTY ''sfp-status''] = Inr (Some sfp)"
  "find_elem (port_A1 sfp) [OBJECT ''port-details'', PROPERTY ''sfp-present''] = None"
  "\<forall>n\<in>{''port'', ''health-numeric'', ''port-type'', ''actual-speed'', ''status''}.
     find_elem (port_A1 sfp) [PROPERTY n] \<noteq> None"
  by (simp_all add: example_defs xml_defs)

theorem port_sfp_present_and_code_witness:
  "findall (ports_doc ''Not present'') [OBJECT ''ports''] = [port_A1 ''Not present'']
   \<and> find_elem (port_A1 ''Not present'') [OBJECT ''port-details'', PROPERTY ''sfp-status-numeric''] = None
   \<and> find_text (port_A1 ''Not present'') [OBJECT ''port-details'', PROPERTY ''sfp-status'']
       = Inr (Some ''Not present'')
   \<and> (\<exists>entry. make_lld http_cfg (serving (ports_doc ''Not present'')) msa1 ''ports''
                 (Some ''SESSIONKEY1'') (at_noon (Present []))
               = (Inr [entry],
                  requested http_cfg (serving (ports_doc ''Not present''))
                    (show_url http_cfg msa1 ''ports'') (Some ''SESSIONKEY1'') (at_noon (Present [])))
            \<and> map_of entry ''{#PORT.SFP}'' = Some (Some ''UNKNOWN''))
   \<and> (\<exists>port_name d. get_full_json http_cfg (serving (ports_doc ''Not present'')) msa1 ''ports''
                       (Some ''SESSIONKEY1'') False (at_noon (Present []))
                     = (Inr [(port_name, d)],
                        requested http_cfg (serving (ports_doc ''Not present''))
                          (show_url http_cfg msa1 ''ports'') (Some ''SESSIONKEY1'')
                          (at_noon (Present [])))
            \<and> map_of d ''ss'' = Some (Some ''2''))"
proof -
  note t = port_sfp_present_and_code[
      OF ports_doc_query[of "''Not present''" "Some ''SESSIONKEY1''" "at_noon (Present [])"]
         port_A1_only(1) port_A1_sfp(1) port_A1_only(2)]
  from t have 1: "\<exists>entry. make_lld http_cfg (serving (ports_doc ''Not present'')) msa1 ''ports''
                 (Some ''SESSIONKEY1'') (at_noon (Present []))
               = (Inr [entry],
                  requested http_cfg (serving (ports_doc ''Not present''))
                    (show_url http_cfg msa1 ''ports'') (Some ''SESSIONKEY1'') (at_noon (Present [])))
            \<and> map_of entry ''{#PORT.SFP}'' = Some (Some ''UNKNOWN'')"
    by (simp add: port_A1_only(3))
  from t port_A1_only(4)[of "''Not present''"]
  have 2: "\<exists>port_name d. get_full_json http_cfg (serving (ports_doc ''Not present'')) msa1 ''ports''
                       (Some ''SESSIONKEY1'') False (at_noon (Present []))
                     = (Inr [(port_name, d)],
                        requested http_cfg (serving (ports_doc ''Not present''))
                          (show_url http_cfg msa1 ''ports'') (Some ''SESSIONKEY1'')
                          (at_noon (Present [])))
            \<and> map_of d ''ss'' = Some (Some ''2'')"
    by blast
  from 1 2 port_A1_only(1) port_A1_sfp(1) port_A1_only(2) show ?thesis by blast
qed

section \<open>Power supplies\<close>

lemma any_case_found:
  assumes "name = pre @ mid @ post" and "lower mid = sub"
  shows "find_str (lower name) sub \<noteq> - 1"
proof -
  from assms have "lower name = lower pre @ sub @ lower post" by (simp add: lower_def)
  then show ?thesis unfolding find_str_none_iff by blast
qed

lemma set_keys_setitem: "set (keys (setitem d k v)) = insert k (set (keys d))"
  by (auto simp: keys_setitem)

lemma expand_items_keys:
  "expand_items init_dict result_dict = Inr r
   \<Longrightarrow> set (keys r) \<subseteq> set (keys result_dict) \<union> set (keys init_dict)"
proof (induction init_dict arbitrary: result_dict)
  case Nil
  then show ?case by simp
next
  case (Cons x init_dict)
  obtain compid metrics where x: "x = (compid, metrics)" by (cases x)
  from Cons.prems x obtain h where
    "expand_items init_dict (setitem result_dict compid h) = Inr r"
    by (auto split: sum.splits)
  from Cons.IH[OF this] x show ?case
    by (auto simp: set_keys_setitem) (auto simp: keys_def)
qed

lemma expand_dict_keys: "expand_dict init_dict = Inr r \<Longrightarrow> set (keys r) \<subseteq> set (keys init_dict)"
  using expand_items_keys[of init_dict "[]" r] by (simp add: expand_dict_def keys_def)

lemma get_full_json_power_supplies:
  assumes "query_xmlapi cfg ev (show_url cfg msa ''power-supplies'') sk w = (Inr (Some ''0'', rd, xml), w1)"
  shows "get_full_json cfg ev msa ''power-supplies'' sk human w =
         bindS (for_parts (pure power_supplies_part) (findall xml [OBJECT ''power-supplies'']) [])
           (\<lambda>all_components.
              if human then (case expand_dict all_components of Inl e \<Rightarrow> raise e | Inr r \<Rightarrow> return r)
              else return all_components) w1"
  using assms by (simp add: get_full_json_def bindS_def)

lemma power_supplies_part_step:
  assumes "power_supplies_part PS acc = Inr acc'"
  shows "set acc' \<subseteq> set acc \<union>
           {e. prop_text PS ''durable-id'' = Inr (fst e)
               \<and> (\<exists>name. prop_text PS ''name'' = Inr (Some name)
                     \<and> find_str (lower name) ''voltage regulator'' = - 1)}"
proof -
  from assms obtain ps_id name where i: "prop_text PS ''durable-id'' = Inr ps_id"
    and n: "prop_text PS ''name'' = Inr (Some name)"
    by (auto simp: power_supplies_part_def bindE_def split: sum.splits option.splits)
  show ?thesis
  proof (cases "find_str (lower name) ''voltage regulator'' = - 1")
    case True
    with assms i n obtain d where "acc' = setitem acc ps_id d"
      by (auto simp: power_supplies_part_def bindE_def split: sum.splits)
    with set_setitem[of acc ps_id d] i n True show ?thesis by auto
  next
    case False
    with assms i n have "acc' = acc"
      by (simp add: power_supplies_part_def bindE_def)
    then show ?thesis by auto
  qed
qed


lemma power_supplies_kind:
  "getitem comp_names_map ''power-supplies'' = Inr ''power-supplies''"
  "getitem comp_props_map ''power-supplies''
     = Inr [(''{#POWERSUPPLY.ID}'', ''durable-id''), (''{#POWERSUPPLY.LOCATION}'', ''location''),
            (''{#POWERSUPPLY.NAME}'', ''name'')]"
  by (simp_all add: getitem_def comp_names_map_def comp_props_map_def)

lemma lower_examples:
  "lower ''Voltage Regulator 1'' = ''voltage regulator 1''"
  "lower ''Voltage Regulator'' = ''voltage regulator''"
  "lower ''PSU 1, Left'' = ''psu 1, left''"
  by code_simp+

text \<open>
  C5, as stated, fails for discovery. The response has one power supply named
  \<open>Voltage Regulator 1\<close>; \<open>make_lld\<close> lists it, while \<open>get_full_json\<close> leaves it out.
\<close>

theorem voltage_regulator_discovered_counterexample:
  "find_text regulator [PROPERTY ''name''] = Inr (Some ''Voltage Regulator 1'')
   \<and> lower ''Voltage Regulator'' = ''voltage regulator''
   \<and> findall psu_doc [OBJECT ''power-supplies''] = [regulator]
   \<and> fst (make_lld http_cfg (serving psu_doc) msa1 ''power-supplies'' (Some ''SESSIONKEY1'')
            (at_noon (Present [])))
       = Inr [[(''{#POWERSUPPLY.ID}'', Some ''psu_1.3''),
               (''{#POWERSUPPLY.LOCATION}'', Some ''Enclosure 1''),
               (''{#POWERSUPPLY.NAME}'', Some ''Voltage Regulator 1'')]]
   \<and> fst (get_full_json http_cfg (serving psu_doc) msa1 ''power-supplies'' (Some ''SESSIONKEY1'')
            False (at_noon (Present [])))
       = Inr []"
  by (simp add: lld_defs full_defs example_defs xml_defs io_defs api_defs Let_def lower_examples)

text \<open>
  C5, amended. For every power-supplies response, every instance whose name contains
  \<open>voltage regulator\<close> in any letter case is excluded from the result of the metrics
  mode: each key of the result of \<open>get_full_json\<close>, with or without \<open>human\<close>, is the
  \<open>durable-id\<close> of a power supply of the response whose name has no part that \<open>lower\<close>
  turns into \<open>voltage regulator\<close>. Discovery excludes nothing: \<open>make_lld\<close> returns one
  entry for each power supply of the response, with its name in \<open>{#POWERSUPPLY.NAME}\<close>.
\<close>

theorem voltage_regulator_excluded_in_full_mode:
  assumes q: "query_xmlapi cfg ev (show_url cfg msa ''power-supplies'') sessionkey w
                = (Inr (Some ''0'', rd, xml), w1)"
  shows "(\<forall>all_components w2 ps_id.
            get_full_json cfg ev msa ''power-supplies'' sessionkey human w = (Inr all_components, w2)
            \<longrightarrow> ps_id \<in> set (keys all_components)
            \<longrightarrow> (\<exists>PS\<in>set (findall xml [OBJECT ''power-supplies'']).
                   prop_text PS ''durable-id'' = Inr ps_id
                   \<and> (\<exists>ps_name. prop_text PS ''name'' = Inr (Some ps_name)
                         \<and> \<not> (\<exists>pre mid post. ps_name = pre @ mid @ post
                                 \<and> lower mid = ''voltage regulator''))))
       \<and> (\<exists>entries.
            make_lld cfg ev msa ''power-supplies'' sessionkey w = (Inr entries, w1)
            \<and> length entries = length (findall xml [OBJECT ''power-supplies''])
            \<and> (\<forall>i<length entries.
                  map_of (entries ! i) ''{#POWERSUPPLY.NAME}''
                    = Some (case find_elem (findall xml [OBJECT ''power-supplies''] ! i)
                                   [PROPERTY ''name''] of
                              None \<Rightarrow> Some ''UNKNOWN'' | Some e \<Rightarrow> elem_text e)))"
proof (intro conjI allI impI)
  fix all_components w2 ps_id
  assume r: "get_full_json cfg ev msa ''power-supplies'' sessionkey human w = (Inr all_components, w2)"
     and k: "ps_id \<in> set (keys all_components)"
  let ?parts = "findall xml [OBJECT ''power-supplies'']"
  from r obtain all0 where
    l: "for_parts (pure power_supplies_part) ?parts [] w1 = (Inr all0, w1)"
    and e: "all_components = all0 \<or> expand_dict all0 = Inr all_components"
    unfolding get_full_json_power_supplies[OF q]
    by (auto simp: bindS_def return_def raise_def dest: for_parts_pure_world
             split: sum.splits prod.splits if_splits)
  from e k have "ps_id \<in> set (keys all0)" using expand_dict_keys by blast
  then obtain d where "(ps_id, d) \<in> set all0" by (auto simp: keys_def)
  with for_parts_pure_from[where f = power_supplies_part, OF power_supplies_part_step l]
  obtain PS ps_name where PS: "PS \<in> set ?parts" and i: "prop_text PS ''durable-id'' = Inr ps_id"
    and n: "prop_text PS ''name'' = Inr (Some ps_name)"
    and f: "find_str (lower ps_name) ''voltage regulator'' = - 1"
    by force
  from f any_case_found have "\<not> (\<exists>pre mid post. ps_name = pre @ mid @ post
                                 \<and> lower mid = ''voltage regulator'')"
    by blast
  with PS i n show "\<exists>PS\<in>set ?parts.
                   prop_text PS ''durable-id'' = Inr ps_id
                   \<and> (\<exists>ps_name. prop_text PS ''name'' = Inr (Some ps_name)
                         \<and> \<not> (\<exists>pre mid post. ps_name = pre @ mid @ post
                                 \<and> lower mid = ''voltage regulator''))"
    by blast
next
  let ?parts = "findall xml [OBJECT ''power-supplies'']"
  let ?P = "\<lambda>part d. map_of d ''{#POWERSUPPLY.NAME}'' = Some (text_or_unknown part [PROPERTY ''name''])"
  have "\<And>part. \<exists>d. lld_entry ''power-supplies'' part = Inr d \<and> ?P part d"
    using lld_entry_Inr[OF power_supplies_kind(2)] by fastforce
  from lld_loop_all[where P = ?P and acc = "[]", of ?parts "''power-supplies''", OF this]
  obtain ds where l: "lld_loop ''power-supplies'' ?parts [] = Inr ds" and a: "list_all2 ?P ?parts ds"
    by auto
  from l have m: "make_lld cfg ev msa ''power-supplies'' sessionkey w = (Inr ds, w1)"
    by (simp add: make_lld_kind[OF q power_supplies_kind(1)])
  from a have len: "length ds = length ?parts" by (simp add: list_all2_lengthD)
  have "\<forall>i<length ds. map_of (ds ! i) ''{#POWERSUPPLY.NAME}''
                    = Some (case find_elem (?parts ! i) [PROPERTY ''name''] of
                              None \<Rightarrow> Some ''UNKNOWN'' | Some e \<Rightarrow> elem_text e)"
  proof (intro allI impI)
    fix i assume "i < length ds"
    with len have "i < length ?parts" by simp
    from list_all2_nthD[OF a this]
    show "map_of (ds ! i) ''{#POWERSUPPLY.NAME}''
                    = Some (case find_elem (?parts ! i) [PROPERTY ''name''] of
                              None \<Rightarrow> Some ''UNKNOWN'' | Some e \<Rightarrow> elem_text e)"
      by (simp add: text_or_unknown_def find_text_def split: option.splits)
  qed
  with m len show "\<exists>entries.
            make_lld cfg ev msa ''power-supplies'' sessionkey w = (Inr entries, w1)
            \<and> length entries = length ?parts
            \<and> (\<forall>i<length entries.
                  map_of (entries ! i) ''{#POWERSUPPLY.NAME}''
                    = Some (case find_elem (?parts ! i) [PROPERTY ''name''] of
                              None \<Rightarrow> Some ''UNKNOWN'' | Some e \<Rightarrow> elem_text e))"
    by blast
qed


text \<open>The example: a voltage regulator and a power supply.\<close>

lemma psus_doc_query:
  "query_xmlapi http_cfg (serving psus_doc) (show_url http_cfg msa1 ''power-supplies'') sk w
   = (Inr (Some ''0'', Some ''Command completed successfully.'', psus_doc),
      requested http_cfg (serving psus_doc) (show_url http_cfg msa1 ''power-supplies'') sk w)"
  by (simp add: example_defs xml_defs api_defs io_defs Let_def)

lemma psus_doc_full:
  "get_full_json http_cfg (serving psus_doc) msa1 ''power-supplies'' sk False w
   = (Inr [(Some ''psu_1.1'',
            [(''h'', Some ''0''), (''s'', Some ''1''), (''12v'', Some ''1195''), (''5v'', Some ''508''),
             (''33v'', Some ''336''), (''12i'', Some ''903''), (''5i'', Some ''640'')])],
      requested http_cfg (serving psus_doc) (show_url http_cfg msa1 ''power-supplies'') sk w)"
  by (simp add: full_defs example_defs xml_defs io_defs api_defs Let_def lower_examples)

lemma psus_doc_parts: "findall psus_doc [OBJECT ''power-supplies''] = [regulator, psu_left]"
  by (simp add: example_defs xml_defs)

theorem voltage_regulator_excluded_in_full_mode_witness:
  "findall psus_doc [OBJECT ''power-supplies''] = [regulator, psu_left]
   \<and> get_full_json http_cfg (serving psus_doc) msa1 ''power-supplies'' (Some ''SESSIONKEY1'') False
       (at_noon (Present []))
     = (Inr [(Some ''psu_1.1'',
              [(''h'', Some ''0''), (''s'', Some ''1''), (''12v'', Some ''1195''), (''5v'', Some ''508''),
               (''33v'', Some ''336''), (''12i'', Some ''903''), (''5i'', Some ''640'')])],
        requested http_cfg (serving psus_doc) (show_url http_cfg msa1 ''power-supplies'')
          (Some ''SESSIONKEY1'') (at_noon (Present [])))
   \<and> (\<exists>PS\<in>{regulator, psu_left}.
         prop_text PS ''durable-id'' = Inr (Some ''psu_1.1'')
         \<and> (\<exists>ps_name. prop_text PS ''name'' = Inr (Some ps_name)
               \<and> \<not> (\<exists>pre mid post. ps_name = pre @ mid @ post \<and> lower mid = ''voltage regulator'')))
   \<and> (\<exists>entries.
         make_lld http_cfg (serving psus_doc) msa1 ''power-supplies'' (Some ''SESSIONKEY1'')
           (at_noon (Present []))
         = (Inr entries,
            requested http_cfg (serving psus_doc) (show_url http_cfg msa1 ''power-supplies'')
              (Some ''SESSIONKEY1'') (at_noon (Present [])))
         \<and> length entries = 2)"
proof -
  note t = voltage_regulator_excluded_in_full_mode[where human = False,
      OF psus_doc_query[of "Some ''SESSIONKEY1''" "at_noon (Present [])"]]
  have k: "Some ''psu_1.1'' \<in> set (keys [(Some ''psu_1.1'',
              [(''h'', Some ''0''), (''s'', Some ''1''), (''12v'', Some ''1195''), (''5v'', Some ''508''),
               (''33v'', Some ''336''), (''12i'', Some ''903''), (''5i'', Some ''640'')])])"
    by (simp add: keys_def)
  from t psus_doc_full[of "Some ''SESSIONKEY1''" "at_noon (Present [])"] k
  have 1: "\<exists>PS\<in>set (findall psus_doc [OBJECT ''power-supplies'']).
         prop_text PS ''durable-id'' = Inr (Some ''psu_1.1'')
         \<and> (\<exists>ps_name. prop_text PS ''name'' = Inr (Some ps_name)
               \<and> \<not> (\<exists>pre mid post. ps_name = pre @ mid @ post \<and> lower mid = ''voltage regulator''))"
    by blast
  from t have 2: "\<exists>entries.
         make_lld http_cfg (serving psus_doc) msa1 ''power-supplies'' (Some ''SESSIONKEY1'')
           (at_noon (Present []))
         = (Inr entries,
            requested http_cfg (serving psus_doc) (show_url http_cfg msa1 ''power-supplies'')
              (Some ''SESSIONKEY1'') (at_noon (Present [])))
         \<and> length entries = length (findall psus_doc [OBJECT ''power-supplies''])"
    by blast
  from 1 have 3: "\<exists>PS\<in>{regulator, psu_left}.
         prop_text PS ''durable-id'' = Inr (Some ''psu_1.1'')
         \<and> (\<exists>ps_name. prop_text PS ''name'' = Inr (Some ps_name)
               \<and> \<not> (\<exists>pre mid post. ps_name = pre @ mid @ post \<and> lower mid = ''voltage regulator''))"
    by (simp only: psus_doc_parts list.set)
  from 2 have 4: "\<exists>entries.
         make_lld http_cfg (serving psus_doc) msa1 ''power-supplies'' (Some ''SESSIONKEY1'')
           (at_noon (Present []))
         = (Inr entries,
            requested http_cfg (serving psus_doc) (show_url http_cfg msa1 ''power-supplies'')
              (Some ''SESSIONKEY1'') (at_noon (Present [])))
         \<and> length entries = 2"
    by (simp add: psus_doc_parts numeral_2_eq_2)
  from 3 4 psus_doc_parts psus_doc_full[of "Some ''SESSIONKEY1''" "at_noon (Present [])"]
  show ?thesis by blast
qed

end
